theory Spec2Isabelle
  imports Complex_Main
begin

section \<open>Python values, layers and graph nodes\<close>

text \<open>
  The module \<^verbatim>\<open>model/seq_crf.py\<close> builds a dataflow graph: it creates layer objects
  through the factories of \<^verbatim>\<open>util.layer_util\<close>, calls them on tensors and wires the
  results together. The embedding is symbolic: a graph node records which operation made
  it and from which arguments, exactly as the call is written in the source.

  Configuration values are Python values. Floats are real numbers here.
\<close>

datatype pyval =
    PNone
  | PBool bool
  | PInt int
  | PFloat real
  | PStr string
  | PList "pyval list"
  | PObj string

text \<open>
  A layer object is identified by the factory (or class) that made it, the positional
  arguments and the keyword arguments of that call. The factories themselves
  (\<^verbatim>\<open>create_embedding_layer\<close>, \<^verbatim>\<open>create_dropout_layer\<close>,
  \<^verbatim>\<open>create_convolution_layer\<close>, \<^verbatim>\<open>create_pooling_layer\<close>,
  \<^verbatim>\<open>create_recurrent_layer\<close>, \<^verbatim>\<open>create_dense_layer\<close>, \<^verbatim>\<open>FusionModule\<close>)
  live in \<^verbatim>\<open>util.layer_util\<close>, outside this module: what they compute is a parameter
  of the semantics further down, never assumed here.
\<close>

datatype layer = Layer string "pyval list" "(string \<times> pyval) list"

fun factory :: "layer \<Rightarrow> string" where
  "factory (Layer f args kwargs) = f"

fun positional :: "layer \<Rightarrow> pyval list" where
  "positional (Layer f args kwargs) = args"

fun keyword :: "layer \<Rightarrow> string \<Rightarrow> pyval option" where
  "keyword (Layer f args kwargs) k = map_of kwargs k"

text \<open>
  \<^verbatim>\<open>tf.train.ExponentialMovingAverage(decay=d)\<close> is a framework object, kept as the
  constructor call that made it.
\<close>

datatype ema = ExponentialMovingAverage real

text \<open>
  Graph nodes.
  \<^item> \<open>Input n\<close>: a tensor handed over by the data pipeline.
  \<^item> \<open>Var n\<close>: the graph variable whose \<^verbatim>\<open>op.name\<close> is \<open>n\<close>.
  \<^item> \<open>Lit v\<close>: a Python value used as an argument.
  \<^item> \<open>NList xs\<close>: a Python list of nodes.
  \<^item> \<open>Call l args k\<close>: component \<open>k\<close> of the result of calling layer object \<open>l\<close> on
    \<open>args\<close> (component 0 when the call returns a single tensor).
  \<^item> \<open>LayerMethod l m\<close>: the result of the argument-free method \<open>m\<close> of layer \<open>l\<close>.
  \<^item> \<open>TfCall f args kwargs k\<close>: component \<open>k\<close> of a framework function's result.
  \<^item> \<open>EmaCall e m args\<close>: the result of method \<open>m\<close> of the moving-average object \<open>e\<close>.
  \<^item> \<open>SelfCall m args k\<close>: component \<open>k\<close> of the result of a method inherited from
    \<^verbatim>\<open>BaseModel\<close> (not part of this module).
  \<^item> \<open>Squeeze\<close>, \<open>ExpandDims\<close>, \<open>Mul\<close>, \<open>Add\<close>: \<^verbatim>\<open>tf.squeeze\<close>,
    \<^verbatim>\<open>tf.expand_dims\<close>, and the overloaded \<^verbatim>\<open>*\<close> and \<^verbatim>\<open>+\<close> on tensors.
  \<^item> \<open>Ctl deps n\<close>: node \<open>n\<close> created inside \<^verbatim>\<open>tf.control_dependencies(deps)\<close>.
\<close>

datatype node =
    Input string
  | Var string
  | Lit pyval
  | NList "node list"
  | Call layer "node list" nat
  | LayerMethod layer string
  | TfCall string "node list" "(string \<times> pyval) list" nat
  | EmaCall ema string "node list"
  | SelfCall string "node list" nat
  | Squeeze node int
  | ExpandDims node int
  | Mul node node
  | Add node node
  | Ctl "node list" node

section \<open>Hyperparameters, data pipeline and the model object\<close>

record hyperparams =
  data_word_vocab_size :: int
  data_char_vocab_size :: int
  model_word_embed_dim :: int
  model_word_dropout :: real
  model_word_embed_pretrained :: bool
  model_word_feat_trainable :: bool
  model_word_feat_enable :: bool
  model_char_embed_dim :: int
  model_char_unit_dim :: int
  model_char_window_size :: "int list"
  model_char_hidden_activation :: string
  model_char_dropout :: real
  model_char_pooling_type :: string
  model_char_feat_trainable :: bool
  model_char_feat_enable :: bool
  model_fusion_type :: string
  model_fusion_num_layer :: int
  model_fusion_unit_dim :: int
  model_fusion_hidden_activation :: string
  model_fusion_dropout :: real
  model_fusion_trainable :: bool
  model_sequence_num_layer :: int
  model_sequence_unit_dim :: int
  model_sequence_cell_type :: string
  model_sequence_hidden_activation :: string
  model_sequence_dropout :: real
  model_sequence_forget_bias :: real
  model_sequence_residual_connect :: bool
  model_sequence_trainable :: bool
  model_projection_unit_dim :: int
  model_projection_trainable :: bool
  train_random_seed :: int
  train_ema_enable :: bool
  train_ema_decay_rate :: real
  train_regularization_enable :: bool
  train_optimizer_learning_rate :: real
  train_optimizer_warmup_enable :: bool
  train_optimizer_decay_enable :: bool
  train_ckpt_output_dir :: string
  train_num_epoch :: int

record data_pipeline =
  input_text_word :: node
  input_text_word_mask :: node
  input_text_char :: node
  input_text_char_mask :: node
  input_label :: node
  input_label_mask :: node

text \<open>
  \<^verbatim>\<open>tf.train.Saver(var_list, ...)\<close> is a framework object, kept as the constructor
  call that made it: the name-to-saveable dictionary and the keyword arguments.
\<close>

datatype saver = Saver "(string \<times> node) list" "(string \<times> pyval) list"

fun saver_var_list :: "saver \<Rightarrow> (string \<times> node) list" where
  "saver_var_list (Saver vs kwargs) = vs"

fun saver_kwargs :: "saver \<Rightarrow> (string \<times> pyval) list" where
  "saver_kwargs (Saver vs kwargs) = kwargs"

text \<open>
  The object \<^verbatim>\<open>self\<close>. The first seven fields are what \<^verbatim>\<open>BaseModel.__init__\<close> (not part of
  this module) leaves on the object; the others are assigned by this module. An
  attribute that has not been assigned is \<open>None\<close>; \<open>word_embedding_placeholder\<close> is
  \<open>Some (Lit PNone)\<close> when the source assigns Python's \<^verbatim>\<open>None\<close>. A variable of the
  graph is identified by its \<^verbatim>\<open>op.name\<close>, so \<open>variable_list\<close> is a list of names.
\<close>

record model =
  hyperparams :: hyperparams
  data_pipeline :: data_pipeline
  mode :: string
  scope :: string
  regularizer :: pyval
  num_gpus :: int
  default_gpu_id :: int
  global_step :: "node option"
  word_embedding_placeholder :: "node option"
  variable_list :: "string list"
  variable_lookup :: "(string \<times> node) list"
  ema :: "ema option"
  infer_predict :: "node option"
  infer_predict_mask :: "node option"
  infer_summary :: "node option"
  train_loss :: "node option"
  initial_learning_rate :: "node option"
  warmup_learning_rate :: "node option"
  decayed_learning_rate :: "node option"
  learning_rate :: "node option"
  optimizer :: "node option"
  update_model :: "node option"
  clipped_gradients :: "node option"
  gradient_norm :: "node option"
  update_op :: "node option"
  train_summary :: "node option"
  ckpt_debug_dir :: "string option"
  ckpt_epoch_dir :: "string option"
  ckpt_debug_name :: "string option"
  ckpt_epoch_name :: "string option"
  ckpt_debug_saver :: "saver option"
  ckpt_epoch_saver :: "saver option"

section \<open>Errors and the world outside the object\<close>

datatype py_error =
    ValueError string
  | AttributeError string

text \<open>
  What lies outside \<^verbatim>\<open>self\<close>: the lines the logger has printed, the directories
  \<^verbatim>\<open>tf.gfile\<close> sees, the two graph collections this module reads
  (\<^verbatim>\<open>TRAINABLE_VARIABLES\<close> as variable names, \<^verbatim>\<open>REGULARIZATION_LOSSES\<close>), and the
  calls made to \<^verbatim>\<open>Saver.save\<close> (saver, session handle, path, global step).
\<close>

record world =
  printed :: "string list"
  dirs :: "string set"
  trainable_variables :: "string list"
  regularization_losses :: "node list"
  saved :: "(saver \<times> nat \<times> string \<times> int) list"

definition log_print :: "world \<Rightarrow> string \<Rightarrow> world" where
  "log_print w msg = w\<lparr>printed := printed w @ [msg]\<rparr>"

definition MakeDirs :: "world \<Rightarrow> string \<Rightarrow> world" where
  "MakeDirs w d = w\<lparr>dirs := insert d (dirs w)\<rparr>"

text \<open>\<^verbatim>\<open>os.path.join(a, b)\<close> on a POSIX system.\<close>

definition path_join :: "string \<Rightarrow> string \<Rightarrow> string" where
  "path_join a b =
     (if b \<noteq> [] \<and> hd b = CHR ''/'' then b
      else if a = [] \<or> last a = CHR ''/'' then a @ b
      else a @ ''/'' @ b)"

text \<open>
  Python's \<^verbatim>\<open>a, b, c = t\<close>: the tuple \<open>t\<close> is a list of its components, and the
  assignment raises ValueError unless there are exactly three.
\<close>

fun unpack3 :: "'a list \<Rightarrow> py_error + 'a \<times> 'a \<times> 'a" where
  "unpack3 [] = Inl (ValueError ''not enough values to unpack (expected 3, got 0)'')"
| "unpack3 [a] = Inl (ValueError ''not enough values to unpack (expected 3, got 1)'')"
| "unpack3 [a, b] = Inl (ValueError ''not enough values to unpack (expected 3, got 2)'')"
| "unpack3 [a, b, c] = Inr (a, b, c)"
| "unpack3 (a # b # c # d # xs) = Inl (ValueError ''too many values to unpack (expected 3)'')"

section \<open>WordFeat and CharFeat\<close>

record word_feat =
  wf_vocab_size :: int
  wf_embed_dim :: int
  wf_dropout :: real
  wf_pretrained :: bool
  wf_random_seed :: int
  wf_trainable :: bool
  wf_scope :: string
  wf_embedding_layer :: layer
  wf_dropout_layer :: layer

definition WordFeat_init ::
  "int \<Rightarrow> int \<Rightarrow> real \<Rightarrow> bool \<Rightarrow> int \<Rightarrow> bool \<Rightarrow> string \<Rightarrow> word_feat" where
  "WordFeat_init vocab_size embed_dim dropout pretrained random_seed trainable scp =
     \<lparr>wf_vocab_size = vocab_size, wf_embed_dim = embed_dim, wf_dropout = dropout,
      wf_pretrained = pretrained, wf_random_seed = random_seed, wf_trainable = trainable,
      wf_scope = scp,
      wf_embedding_layer = Layer ''create_embedding_layer''
        [PInt vocab_size, PInt embed_dim, PBool pretrained, PInt 0, PInt 0,
         PInt random_seed, PBool trainable] [],
      wf_dropout_layer = Layer ''create_dropout_layer'' [PFloat dropout, PInt 0, PInt 0] []\<rparr>"

text \<open>
  \<^verbatim>\<open>WordFeat.__call__\<close>. \<open>word_embedding\<close> is the value the source names
  \<^verbatim>\<open>input_word_embedding\<close>: the one handed to the dropout layer.
\<close>

definition word_embedding :: "word_feat \<Rightarrow> node \<Rightarrow> node \<Rightarrow> node" where
  "word_embedding self input_word input_word_mask =
     (let input_word_embedding_mask = input_word_mask
      in Mul (Squeeze (Call (wf_embedding_layer self) [input_word] 0) (- 2))
             input_word_embedding_mask)"

definition WordFeat_call :: "word_feat \<Rightarrow> node \<Rightarrow> node \<Rightarrow> node \<times> node" where
  "WordFeat_call self input_word input_word_mask =
     (let input_word_embedding_mask = input_word_mask;
          input_word_embedding = word_embedding self input_word input_word_mask;
          input_word_dropout =
            Call (wf_dropout_layer self) [input_word_embedding, input_word_embedding_mask] 0;
          input_word_dropout_mask =
            Call (wf_dropout_layer self) [input_word_embedding, input_word_embedding_mask] 1;
          input_word_feat = input_word_dropout;
          input_word_feat_mask = input_word_dropout_mask
      in (input_word_feat, input_word_feat_mask))"

definition WordFeat_get_embedding_placeholder :: "word_feat \<Rightarrow> node" where
  "WordFeat_get_embedding_placeholder self =
     LayerMethod (wf_embedding_layer self) ''get_embedding_placeholder''"

record char_feat =
  cf_vocab_size :: int
  cf_embed_dim :: int
  cf_unit_dim :: int
  cf_window_size :: "int list"
  cf_activation :: string
  cf_pooling_type :: string
  cf_dropout :: real
  cf_num_gpus :: int
  cf_default_gpu_id :: int
  cf_regularizer :: pyval
  cf_random_seed :: int
  cf_trainable :: bool
  cf_scope :: string
  cf_embedding_layer :: layer
  cf_conv_layer :: layer
  cf_pooling_layer :: layer

definition CharFeat_init ::
  "int \<Rightarrow> int \<Rightarrow> int \<Rightarrow> int list \<Rightarrow> string \<Rightarrow> string \<Rightarrow> real \<Rightarrow> int \<Rightarrow> int \<Rightarrow> pyval \<Rightarrow>
   int \<Rightarrow> bool \<Rightarrow> string \<Rightarrow> char_feat" where
  "CharFeat_init vocab_size embed_dim unit_dim window_size activation pooling_type dropout
       ngpus gpu_id reg random_seed trainable scp =
     \<lparr>cf_vocab_size = vocab_size, cf_embed_dim = embed_dim, cf_unit_dim = unit_dim,
      cf_window_size = window_size, cf_activation = activation,
      cf_pooling_type = pooling_type, cf_dropout = dropout, cf_num_gpus = ngpus,
      cf_default_gpu_id = gpu_id, cf_regularizer = reg, cf_random_seed = random_seed,
      cf_trainable = trainable, cf_scope = scp,
      cf_embedding_layer = Layer ''create_embedding_layer''
        [PInt vocab_size, PInt embed_dim, PBool False, PInt 0, PInt 0,
         PInt random_seed, PBool trainable] [],
      cf_conv_layer = Layer ''create_convolution_layer''
        [PStr ''stacked_multi_1d'', PInt 1, PInt embed_dim, PInt unit_dim,
         PList (map PInt window_size), PInt 1, PStr ''SAME'', PStr activation,
         PList [PFloat dropout], PNone, PBool False, PBool False, PInt ngpus, PInt gpu_id,
         reg, PInt random_seed, PBool trainable] [],
      cf_pooling_layer = Layer ''create_pooling_layer''
        [PStr pooling_type, PInt (- 1), PInt 1, PInt 0, PInt 0] []\<rparr>"

text \<open>
  \<^verbatim>\<open>CharFeat.__call__\<close>. \<open>char_embedding\<close> is the value the source names
  \<^verbatim>\<open>input_char_embedding\<close>: the one handed to the convolution layer.
\<close>

definition char_embedding_mask :: "node \<Rightarrow> node" where
  "char_embedding_mask input_char_mask = ExpandDims input_char_mask (- 1)"

definition char_embedding :: "char_feat \<Rightarrow> node \<Rightarrow> node \<Rightarrow> node" where
  "char_embedding self input_char input_char_mask =
     (let input_char_embedding_mask = char_embedding_mask input_char_mask
      in Mul (Call (cf_embedding_layer self) [input_char] 0) input_char_embedding_mask)"

definition CharFeat_call :: "char_feat \<Rightarrow> node \<Rightarrow> node \<Rightarrow> node \<times> node" where
  "CharFeat_call self input_char input_char_mask =
     (let input_char_embedding_mask = char_embedding_mask input_char_mask;
          input_char_embedding = char_embedding self input_char input_char_mask;
          input_char_conv =
            Call (cf_conv_layer self) [input_char_embedding, input_char_embedding_mask] 0;
          input_char_conv_mask =
            Call (cf_conv_layer self) [input_char_embedding, input_char_embedding_mask] 1;
          input_char_pool =
            Call (cf_pooling_layer self) [input_char_conv, input_char_conv_mask] 0;
          input_char_pool_mask =
            Call (cf_pooling_layer self) [input_char_conv, input_char_conv_mask] 1;
          input_char_feat = input_char_pool;
          input_char_feat_mask = input_char_pool_mask
      in (input_char_feat, input_char_feat_mask))"

section \<open>SequenceCRF: building the prediction graph\<close>

text \<open>
  Every method takes \<^verbatim>\<open>self\<close> and the world and returns them updated together with its
  result. \<^verbatim>\<open>tf.variable_scope\<close> only prefixes the names of the variables the layers
  create; those names reach this module through \<open>trainable_variables\<close>.

  \<^verbatim>\<open>_build_representation_layer\<close> is written as its three blocks, each reading the
  hyperparameters the source copies into locals at the top of the method: the
  word-level branch, the char-level branch, and the creation of the fusion module. The
  two feature lists start empty and grow by \<^verbatim>\<open>append\<close>.
\<close>

definition word_dropout :: "model \<Rightarrow> real" where
  "word_dropout self =
     (if mode self = ''train'' then model_word_dropout (hyperparams self) else 0.0)"

definition char_dropout :: "model \<Rightarrow> real" where
  "char_dropout self =
     (if mode self = ''train'' then model_char_dropout (hyperparams self) else 0.0)"

definition fusion_dropout :: "model \<Rightarrow> real" where
  "fusion_dropout self =
     (if mode self = ''train'' then model_fusion_dropout (hyperparams self) else 0.0)"

definition word_feat_layer :: "model \<Rightarrow> word_feat" where
  "word_feat_layer self =
     WordFeat_init (data_word_vocab_size (hyperparams self))
       (model_word_embed_dim (hyperparams self)) (word_dropout self)
       (model_word_embed_pretrained (hyperparams self)) (train_random_seed (hyperparams self))
       (model_word_feat_trainable (hyperparams self)) ''word_feat''"

definition char_feat_layer :: "model \<Rightarrow> char_feat" where
  "char_feat_layer self =
     CharFeat_init (data_char_vocab_size (hyperparams self))
       (model_char_embed_dim (hyperparams self)) (model_char_unit_dim (hyperparams self))
       (model_char_window_size (hyperparams self))
       (model_char_hidden_activation (hyperparams self))
       (model_char_pooling_type (hyperparams self)) (char_dropout self) (num_gpus self)
       (default_gpu_id self) (regularizer self) (train_random_seed (hyperparams self))
       (model_char_feat_trainable (hyperparams self)) ''char_feat''"

text \<open>
  The word branch: the feature lists, \<^verbatim>\<open>word_unit_dim\<close>, and \<^verbatim>\<open>self\<close> with its
  \<^verbatim>\<open>word_embedding_placeholder\<close> assigned.
\<close>

definition build_word_feat ::
  "model \<Rightarrow> world \<Rightarrow> node \<Rightarrow> node \<Rightarrow> node list \<Rightarrow> node list \<Rightarrow>
   node list \<times> node list \<times> int \<times> model \<times> world" where
  "build_word_feat self w text_word text_word_mask text_feat_list text_feat_mask_list =
     (if model_word_feat_enable (hyperparams self) = True then
        (text_feat_list @ [fst (WordFeat_call (word_feat_layer self) text_word text_word_mask)],
         text_feat_mask_list @
           [snd (WordFeat_call (word_feat_layer self) text_word text_word_mask)],
         model_word_embed_dim (hyperparams self),
         self\<lparr>word_embedding_placeholder :=
           Some (WordFeat_get_embedding_placeholder (word_feat_layer self))\<rparr>,
         log_print w ''# build word-level representation layer'')
      else
        (text_feat_list, text_feat_mask_list, 0,
         self\<lparr>word_embedding_placeholder := Some (Lit PNone)\<rparr>, w))"

text \<open>The char branch: the feature lists and \<^verbatim>\<open>char_unit_dim\<close>.\<close>

definition build_char_feat ::
  "model \<Rightarrow> world \<Rightarrow> node \<Rightarrow> node \<Rightarrow> node list \<Rightarrow> node list \<Rightarrow>
   node list \<times> node list \<times> int \<times> world" where
  "build_char_feat self w text_char text_char_mask text_feat_list text_feat_mask_list =
     (if model_char_feat_enable (hyperparams self) = True then
        (text_feat_list @ [fst (CharFeat_call (char_feat_layer self) text_char text_char_mask)],
         text_feat_mask_list @
           [snd (CharFeat_call (char_feat_layer self) text_char text_char_mask)],
         model_char_unit_dim (hyperparams self),
         log_print w ''# build char-level representation layer'')
      else (text_feat_list, text_feat_mask_list, 0, w))"

definition feat_fusion_layer :: "model \<Rightarrow> int \<Rightarrow> layer" where
  "feat_fusion_layer self feat_unit_dim =
     Layer ''FusionModule'' []
       [(''input_unit_dim'', PInt feat_unit_dim),
        (''output_unit_dim'', PInt (model_fusion_unit_dim (hyperparams self))),
        (''fusion_type'', PStr (model_fusion_type (hyperparams self))),
        (''num_layer'', PInt (model_fusion_num_layer (hyperparams self))),
        (''activation'', PStr (model_fusion_hidden_activation (hyperparams self))),
        (''dropout'', PFloat (fusion_dropout self)),
        (''num_gpus'', PInt (num_gpus self)),
        (''default_gpu_id'', PInt (default_gpu_id self)),
        (''regularizer'', regularizer self),
        (''random_seed'', PInt (train_random_seed (hyperparams self))),
        (''trainable'', PBool (model_fusion_trainable (hyperparams self)))]"

definition build_representation_layer ::
  "model \<Rightarrow> world \<Rightarrow> node \<Rightarrow> node \<Rightarrow> node \<Rightarrow> node \<Rightarrow> (node \<times> node) \<times> model \<times> world" where
  "build_representation_layer self w text_word text_word_mask text_char text_char_mask =
     (case build_word_feat self w text_word text_word_mask [] [] of
        (text_feat_list, text_feat_mask_list, word_unit_dim, self, w) \<Rightarrow>
     (case build_char_feat self w text_char text_char_mask text_feat_list
             text_feat_mask_list of
        (text_feat_list, text_feat_mask_list, char_unit_dim, w) \<Rightarrow>
     (let feat_unit_dim = word_unit_dim + char_unit_dim;
          fusion = feat_fusion_layer self feat_unit_dim;
          text_feat = Call fusion [NList text_feat_list, NList text_feat_mask_list] 0;
          text_feat_mask = Call fusion [NList text_feat_list, NList text_feat_mask_list] 1
      in ((text_feat, text_feat_mask), self, w))))"

text \<open>
  \<^verbatim>\<open>_build_modeling_layer\<close>: the recurrent layer, then the dense projection layer
  called on the recurrent layer's first two results.
\<close>

definition sequence_dropout :: "model \<Rightarrow> real" where
  "sequence_dropout self =
     (if mode self = ''train'' then model_sequence_dropout (hyperparams self) else 0.0)"

definition sequence_modeling_layer :: "model \<Rightarrow> layer" where
  "sequence_modeling_layer self =
     Layer ''create_recurrent_layer''
       [PStr ''bi'', PInt (model_sequence_num_layer (hyperparams self)),
        PInt (model_sequence_unit_dim (hyperparams self)),
        PStr (model_sequence_cell_type (hyperparams self)),
        PStr (model_sequence_hidden_activation (hyperparams self)),
        PFloat (sequence_dropout self),
        PFloat (model_sequence_forget_bias (hyperparams self)),
        PBool (model_sequence_residual_connect (hyperparams self)), PNone,
        PInt (num_gpus self), PInt (default_gpu_id self),
        PInt (train_random_seed (hyperparams self)),
        PBool (model_sequence_trainable (hyperparams self))] []"

definition projection_modeling_layer :: "model \<Rightarrow> layer" where
  "projection_modeling_layer self =
     Layer ''create_dense_layer''
       [PStr ''single'', PInt 1, PInt (model_projection_unit_dim (hyperparams self)),
        PInt 1, PStr [], PList [PFloat 0.0], PNone, PBool False, PBool False,
        PInt (num_gpus self), PInt (default_gpu_id self), regularizer self,
        PInt (train_random_seed (hyperparams self)),
        PBool (model_projection_trainable (hyperparams self))] []"

definition build_modeling_layer ::
  "model \<Rightarrow> world \<Rightarrow> node \<Rightarrow> node \<Rightarrow> (node \<times> node) \<times> model \<times> world" where
  "build_modeling_layer self w text_feat text_feat_mask =
     (let w = log_print w ''# build sequence modeling layer'';
          text_sequence_modeling =
            Call (sequence_modeling_layer self) [text_feat, text_feat_mask] 0;
          text_sequence_modeling_mask =
            Call (sequence_modeling_layer self) [text_feat, text_feat_mask] 1;
          text_projection_modeling = Call (projection_modeling_layer self)
            [text_sequence_modeling, text_sequence_modeling_mask] 0;
          text_projection_modeling_mask = Call (projection_modeling_layer self)
            [text_sequence_modeling, text_sequence_modeling_mask] 1;
          text_modeling = text_projection_modeling;
          text_modeling_mask = text_projection_modeling_mask
      in ((text_modeling, text_modeling_mask), self, w))"

text \<open>
  \<^verbatim>\<open>_build_graph\<close>. Its \<^verbatim>\<open>return predict, predict_mask\<close> is a Python tuple, kept
  as the list of its components because the caller unpacks it.
\<close>

definition build_graph ::
  "model \<Rightarrow> world \<Rightarrow> node \<Rightarrow> node \<Rightarrow> node \<Rightarrow> node \<Rightarrow> node list \<times> model \<times> world" where
  "build_graph self w text_word text_word_mask text_char text_char_mask =
     (let ((text_feat, text_feat_mask), self, w) =
            build_representation_layer self w text_word text_word_mask text_char
              text_char_mask;
          ((text_modeling, text_modeling_mask), self, w) =
            build_modeling_layer self w text_feat text_feat_mask;
          predict = text_modeling;
          predict_mask = text_modeling_mask
      in ([predict, predict_mask], self, w))"

text \<open>\<^verbatim>\<open>_compute_loss\<close>.\<close>

definition compute_loss :: "node \<Rightarrow> node \<Rightarrow> node \<Rightarrow> node \<Rightarrow> node" where
  "compute_loss label predict sequence_length transition_matrix =
     (let log_likelihood = TfCall ''tf.contrib.crf.crf_log_likelihood''
            [predict, label, sequence_length, transition_matrix] [] 0;
          loss = TfCall ''tf.reduce_mean'' [Mul (Lit (PFloat (- 1.0))) log_likelihood] [] 0
      in loss)"

section \<open>SequenceCRF: construction\<close>

text \<open>
  \<^verbatim>\<open>BaseModel.__init__\<close> is not part of this module. It stores its arguments on the
  object; the regularizer and the two GPU settings it derives are taken as parameters.
  Every attribute this module assigns starts unassigned.
\<close>

definition BaseModel_init ::
  "hyperparams \<Rightarrow> data_pipeline \<Rightarrow> string \<Rightarrow> string \<Rightarrow> pyval \<Rightarrow> int \<Rightarrow> int \<Rightarrow> model" where
  "BaseModel_init hp dp md scp reg ngpus gpu_id =
     \<lparr>hyperparams = hp, data_pipeline = dp, mode = md, scope = scp, regularizer = reg,
      num_gpus = ngpus, default_gpu_id = gpu_id, global_step = None,
      word_embedding_placeholder = None, variable_list = [], variable_lookup = [],
      ema = None, infer_predict = None, infer_predict_mask = None, infer_summary = None,
      train_loss = None, initial_learning_rate = None, warmup_learning_rate = None,
      decayed_learning_rate = None, learning_rate = None, optimizer = None,
      update_model = None, clipped_gradients = None, gradient_norm = None,
      update_op = None, train_summary = None, ckpt_debug_dir = None,
      ckpt_epoch_dir = None, ckpt_debug_name = None, ckpt_epoch_name = None,
      ckpt_debug_saver = None, ckpt_epoch_saver = None\<rparr>"

text \<open>
  \<^verbatim>\<open>ema.average_name(v)\<close>: the framework names the shadow copy of a variable after the
  variable, followed by the name of the moving-average object, whose default is
  \<^verbatim>\<open>ExponentialMovingAverage\<close>.
\<close>

definition average_name :: "ema \<Rightarrow> string \<Rightarrow> string" where
  "average_name e v = v @ ''/ExponentialMovingAverage''"

text \<open>
  The body of \<^verbatim>\<open>__init__\<close> after the graph has been built and its result unpacked,
  in the source's order: the variable lookup, the \<^verbatim>\<open>infer\<close> branch, the \<^verbatim>\<open>train\<close>
  branch, the checkpoint savers. A dictionary built by a comprehension over the variable
  list is the list of its key-value pairs in the order of that list; the names of the
  variables of one graph are distinct.
\<close>

definition init_lookup :: "model \<Rightarrow> world \<Rightarrow> model" where
  "init_lookup self w =
     (let self = self\<lparr>variable_list := trainable_variables w\<rparr>;
          self = self\<lparr>variable_lookup := map (\<lambda>v. (v, Var v)) (variable_list self)\<rparr>
      in if train_ema_enable (hyperparams self) = True then
           (let e = ExponentialMovingAverage (train_ema_decay_rate (hyperparams self));
                self = self\<lparr>ema := Some e\<rparr>
            in self\<lparr>variable_lookup :=
                 map (\<lambda>v. (average_name e v, Var v)) (variable_list self)\<rparr>)
         else self)"

definition init_infer :: "model \<Rightarrow> node \<Rightarrow> node \<Rightarrow> node \<Rightarrow> node \<Rightarrow> model" where
  "init_infer self sequence_length predict predict_mask transition_matrix =
     (if mode self = ''infer'' then
        self\<lparr>infer_predict := Some (TfCall ''tf.contrib.crf.crf_decode''
                 [predict, transition_matrix, sequence_length] [] 0),
             infer_predict_mask := Some predict_mask,
             infer_summary := Some (SelfCall ''_get_infer_summary'' [] 0)\<rparr>
      else self)"

text \<open>
  The \<^verbatim>\<open>train\<close> branch, in four pieces: the loss (with the regularization loss added
  when it is enabled), the learning rate after warm-up and decay, the lines printed on
  the way, and the assignments; the moving-average update comes last, inside
  \<^verbatim>\<open>tf.control_dependencies([self.update_model])\<close>.
\<close>

definition train_loss_node :: "model \<Rightarrow> world \<Rightarrow> node \<Rightarrow> node \<Rightarrow> node \<Rightarrow> node \<Rightarrow> node" where
  "train_loss_node self w label sequence_length predict transition_matrix =
     (if train_regularization_enable (hyperparams self) = True then
        Add (compute_loss label predict sequence_length transition_matrix)
          (TfCall ''tf.contrib.layers.apply_regularization''
             [Lit (regularizer self), NList (regularization_losses w)] [] 0)
      else compute_loss label predict sequence_length transition_matrix)"

definition initial_learning_rate_node :: "model \<Rightarrow> node" where
  "initial_learning_rate_node self =
     TfCall ''tf.constant''
       [Lit (PFloat (train_optimizer_learning_rate (hyperparams self)))] [] 0"

definition warmup_learning_rate_node :: "model \<Rightarrow> node" where
  "warmup_learning_rate_node self =
     (if train_optimizer_warmup_enable (hyperparams self) = True then
        SelfCall ''_apply_learning_rate_warmup'' [initial_learning_rate_node self] 0
      else initial_learning_rate_node self)"

definition decayed_learning_rate_node :: "model \<Rightarrow> node" where
  "decayed_learning_rate_node self =
     (if train_optimizer_decay_enable (hyperparams self) = True then
        SelfCall ''_apply_learning_rate_decay'' [warmup_learning_rate_node self] 0
      else warmup_learning_rate_node self)"

definition train_messages :: "hyperparams \<Rightarrow> string list" where
  "train_messages hp =
     [''# setup loss computation mechanism'', ''# setup initial learning rate mechanism'']
   @ (if train_optimizer_warmup_enable hp = True
      then [''# setup learning rate warm-up mechanism''] else [])
   @ (if train_optimizer_decay_enable hp = True
      then [''# setup learning rate decay mechanism''] else [])
   @ [''# setup training optimizer'', ''# setup loss minimization mechanism'']"

definition init_train ::
  "model \<Rightarrow> world \<Rightarrow> node \<Rightarrow> node \<Rightarrow> node \<Rightarrow> node \<Rightarrow> (py_error + model) \<times> world" where
  "init_train self w label sequence_length predict transition_matrix =
     (if mode self = ''train'' then
        (let loss = train_loss_node self w label sequence_length predict transition_matrix;
             upd = SelfCall ''_minimize_loss'' [loss] 0;
             w = foldl log_print w (train_messages (hyperparams self));
             self = self\<lparr>train_loss := Some loss,
                         initial_learning_rate := Some (initial_learning_rate_node self),
                         warmup_learning_rate := Some (warmup_learning_rate_node self),
                         decayed_learning_rate := Some (decayed_learning_rate_node self),
                         learning_rate := Some (decayed_learning_rate_node self),
                         optimizer := Some (SelfCall ''_initialize_optimizer''
                           [decayed_learning_rate_node self] 0),
                         update_model := Some upd,
                         clipped_gradients := Some (SelfCall ''_minimize_loss'' [loss] 1),
                         gradient_norm := Some (SelfCall ''_minimize_loss'' [loss] 2)\<rparr>
         in if train_ema_enable (hyperparams self) = True then
              (case ema self of
                 None \<Rightarrow> (Inl (AttributeError ''ema''), w)
               | Some e \<Rightarrow>
                   (Inr (self\<lparr>update_op :=
                            Some (Ctl [upd] (EmaCall e ''apply''
                              [NList (map Var (variable_list self))])),
                          variable_lookup :=
                            map (\<lambda>v. (average_name e v, EmaCall e ''average'' [Var v]))
                              (variable_list self),
                          train_summary := Some (SelfCall ''_get_train_summary'' [] 0)\<rparr>),
                    w))
            else
              (Inr (self\<lparr>update_op := Some upd,
                         train_summary := Some (SelfCall ''_get_train_summary'' [] 0)\<rparr>),
               w))
      else (Inr self, w))"

definition init_saver :: "model \<Rightarrow> world \<Rightarrow> model \<times> world" where
  "init_saver self w =
     (let out_dir = train_ckpt_output_dir (hyperparams self);
          w = (if out_dir \<notin> dirs w then MakeDirs w out_dir else w);
          debug_dir = path_join out_dir ''debug'';
          epoch_dir = path_join out_dir ''epoch'';
          w = (if debug_dir \<notin> dirs w then MakeDirs w debug_dir else w);
          w = (if epoch_dir \<notin> dirs w then MakeDirs w epoch_dir else w)
      in (self\<lparr>ckpt_debug_dir := Some debug_dir,
                ckpt_epoch_dir := Some epoch_dir,
                ckpt_debug_name := Some (path_join debug_dir ''model_debug_ckpt''),
                ckpt_epoch_name := Some (path_join epoch_dir ''model_epoch_ckpt''),
                ckpt_debug_saver := Some (Saver (variable_lookup self) []),
                ckpt_epoch_saver := Some (Saver (variable_lookup self)
                  [(''max_to_keep'', PInt (train_num_epoch (hyperparams self)))])\<rparr>,
          w))"

definition init_body ::
  "model \<Rightarrow> world \<Rightarrow> node \<Rightarrow> node \<Rightarrow> node \<Rightarrow> node \<Rightarrow> node \<Rightarrow> (py_error + model) \<times> world" where
  "init_body self w label sequence_length predict predict_mask transition_matrix =
     (let self = init_lookup self w;
          self = init_infer self sequence_length predict predict_mask transition_matrix
      in case init_train self w label sequence_length predict transition_matrix of
           (Inl e, w) \<Rightarrow> (Inl e, w)
         | (Inr self, w) \<Rightarrow> (case init_saver self w of (self, w) \<Rightarrow> (Inr self, w)))"

text \<open>
  \<^verbatim>\<open>SequenceCRF.__init__\<close>. An exception leaves no object: the result is the error
  and the world as it was when the exception was raised.
\<close>

definition SequenceCRF_init ::
  "hyperparams \<Rightarrow> data_pipeline \<Rightarrow> string \<Rightarrow> string \<Rightarrow> pyval \<Rightarrow> int \<Rightarrow> int \<Rightarrow> world \<Rightarrow>
   (py_error + model) \<times> world" where
  "SequenceCRF_init hp dp md scp reg ngpus gpu_id w =
     (let self = BaseModel_init hp dp md scp reg ngpus gpu_id;
          self = self\<lparr>global_step := Some (TfCall ''tf.get_variable''
                   [Lit (PStr ''global_step'')]
                   [(''shape'', PList []), (''dtype'', PObj ''tf.int32''),
                    (''initializer'', PObj ''tf.zeros_initializer''),
                    (''trainable'', PBool False)] 0)\<rparr>;
          text_word = input_text_word (data_pipeline self);
          text_word_mask = input_text_word_mask (data_pipeline self);
          text_char = input_text_char (data_pipeline self);
          text_char_mask = input_text_char_mask (data_pipeline self);
          label = input_label (data_pipeline self);
          label_mask = input_label_mask (data_pipeline self);
          sequence_length = TfCall ''tf.reduce_sum'' [label_mask] [(''axis'', PInt (- 1))] 0;
          w = log_print w ''# build graph'';
          (graph, self, w) =
            build_graph self w text_word text_word_mask text_char text_char_mask
      in case unpack3 graph of
           Inl e \<Rightarrow> (Inl e, w)
         | Inr (predict, predict_mask, transition_matrix) \<Rightarrow>
             init_body self w label sequence_length predict predict_mask
               transition_matrix)"

text \<open>
  \<^verbatim>\<open>save\<close>. Reading an attribute that \<^verbatim>\<open>__init__\<close> never assigned raises
  AttributeError; the saver is read before the checkpoint name.
\<close>

definition save :: "model \<Rightarrow> nat \<Rightarrow> int \<Rightarrow> string \<Rightarrow> world \<Rightarrow> (py_error + unit) \<times> world" where
  "save self sess step save_mode w =
     (if save_mode = ''debug'' then
        (case ckpt_debug_saver self of
           None \<Rightarrow> (Inl (AttributeError ''ckpt_debug_saver''), w)
         | Some sv \<Rightarrow>
             (case ckpt_debug_name self of
                None \<Rightarrow> (Inl (AttributeError ''ckpt_debug_name''), w)
              | Some name \<Rightarrow> (Inr (), w\<lparr>saved := saved w @ [(sv, sess, name, step)]\<rparr>)))
      else if save_mode = ''epoch'' then
        (case ckpt_epoch_saver self of
           None \<Rightarrow> (Inl (AttributeError ''ckpt_epoch_saver''), w)
         | Some sv \<Rightarrow>
             (case ckpt_epoch_name self of
                None \<Rightarrow> (Inl (AttributeError ''ckpt_epoch_name''), w)
              | Some name \<Rightarrow> (Inr (), w\<lparr>saved := saved w @ [(sv, sess, name, step)]\<rparr>)))
      else (Inl (ValueError (''unsupported save mode '' @ save_mode)), w))"

section \<open>What the graph computes\<close>

text \<open>
  A tensor value is a shape and an entry for every index; entries are real numbers. The
  operations this module applies itself (\<^verbatim>\<open>tf.squeeze\<close>, \<^verbatim>\<open>tf.expand_dims\<close>, and
  the elementwise \<^verbatim>\<open>*\<close> and \<^verbatim>\<open>+\<close> with broadcasting) have the framework's
  documented meaning; each returns \<open>None\<close> where the framework rejects the shapes.
\<close>

record rt =
  shp :: "nat list"
  elt :: "nat list \<Rightarrow> real"

text \<open>
  Broadcasting aligns the two shapes at their last axis; along an axis the sizes must
  agree unless one of them is 1, and the operand of size 1 is read at index 0.
\<close>

definition bdim :: "nat \<Rightarrow> nat \<Rightarrow> nat option" where
  "bdim a b = (if a = b then Some a else if a = 1 then Some b else if b = 1 then Some a
               else None)"

fun bdims :: "nat list \<Rightarrow> nat list \<Rightarrow> nat list option" where
  "bdims [] [] = Some []"
| "bdims (a # as) (b # bs) =
     (case bdim a b of
        None \<Rightarrow> None
      | Some d \<Rightarrow> (case bdims as bs of None \<Rightarrow> None | Some ds \<Rightarrow> Some (d # ds)))"
| "bdims _ _ = None"

definition pad :: "nat \<Rightarrow> nat list \<Rightarrow> nat list" where
  "pad r s = replicate (r - length s) 1 @ s"

definition bshape :: "nat list \<Rightarrow> nat list \<Rightarrow> nat list option" where
  "bshape s t = bdims (pad (max (length s) (length t)) s) (pad (max (length s) (length t)) t)"

text \<open>The index at which an operand of shape \<open>s\<close> is read for the result's index \<open>i\<close>.\<close>

definition bindex :: "nat list \<Rightarrow> nat list \<Rightarrow> nat list" where
  "bindex s i = map2 (\<lambda>d j. if d = 1 then 0 else j) s (drop (length i - length s) i)"

definition tf_binop :: "(real \<Rightarrow> real \<Rightarrow> real) \<Rightarrow> rt \<Rightarrow> rt \<Rightarrow> rt option" where
  "tf_binop f x y =
     (case bshape (shp x) (shp y) of
        None \<Rightarrow> None
      | Some s \<Rightarrow>
          Some \<lparr>shp = s, elt = (\<lambda>i. f (elt x (bindex (shp x) i)) (elt y (bindex (shp y) i)))\<rparr>)"

text \<open>A negative axis counts from the end.\<close>

definition tf_squeeze :: "rt \<Rightarrow> int \<Rightarrow> rt option" where
  "tf_squeeze x axis =
     (let r = int (length (shp x));
          a = (if axis < 0 then axis + r else axis)
      in if 0 \<le> a \<and> a < r \<and> shp x ! nat a = 1 then
           Some \<lparr>shp = take (nat a) (shp x) @ drop (nat a + 1) (shp x),
                 elt = (\<lambda>i. elt x (take (nat a) i @ [0] @ drop (nat a) i))\<rparr>
         else None)"

definition tf_expand_dims :: "rt \<Rightarrow> int \<Rightarrow> rt option" where
  "tf_expand_dims x axis =
     (let r = int (length (shp x));
          a = (if axis < 0 then axis + r + 1 else axis)
      in if 0 \<le> a \<and> a \<le> r then
           Some \<lparr>shp = take (nat a) (shp x) @ [1] @ drop (nat a) (shp x),
                 elt = (\<lambda>i. elt x (take (nat a) i @ drop (nat a + 1) i))\<rparr>
         else None)"

text \<open>
  The value of a node is a tensor or, for a Python list, the list of its values.

  Everything this module delegates is a parameter: the tensors fed for the pipeline's
  inputs, the values of the variables, and what the layers of \<^verbatim>\<open>util.layer_util\<close>, the
  framework functions, the moving-average object and the methods of \<^verbatim>\<open>BaseModel\<close>
  compute. A layer call also receives the random draw \<open>\<rho>\<close> of the evaluation, since
  dropout is random.
\<close>

datatype sval = Tensor rt | Values "sval list"

record framework =
  feed :: "string \<Rightarrow> rt"
  variable :: "string \<Rightarrow> rt"
  run_layer :: "layer \<Rightarrow> nat \<Rightarrow> sval list \<Rightarrow> nat \<Rightarrow> sval option"
  run_layer_method :: "layer \<Rightarrow> string \<Rightarrow> sval option"
  run_tf :: "string \<Rightarrow> (string \<times> pyval) list \<Rightarrow> sval list \<Rightarrow> nat \<Rightarrow> sval option"
  run_ema :: "ema \<Rightarrow> string \<Rightarrow> sval list \<Rightarrow> sval option"
  run_self :: "string \<Rightarrow> sval list \<Rightarrow> nat \<Rightarrow> sval option"

definition scalar :: "real \<Rightarrow> rt" where
  "scalar c = \<lparr>shp = [], elt = (\<lambda>i. c)\<rparr>"

fun lift2 :: "(rt \<Rightarrow> rt \<Rightarrow> rt option) \<Rightarrow> sval option \<Rightarrow> sval option \<Rightarrow> sval option" where
  "lift2 f (Some (Tensor x)) (Some (Tensor y)) = map_option Tensor (f x y)"
| "lift2 f _ _ = None"

fun lift1 :: "(rt \<Rightarrow> rt option) \<Rightarrow> sval option \<Rightarrow> sval option" where
  "lift1 f (Some (Tensor x)) = map_option Tensor (f x)"
| "lift1 f _ = None"

fun eval :: "framework \<Rightarrow> nat \<Rightarrow> node \<Rightarrow> sval option" where
  "eval F \<rho> (Input n) = Some (Tensor (feed F n))"
| "eval F \<rho> (Var n) = Some (Tensor (variable F n))"
| "eval F \<rho> (Lit v) =
     (case v of PFloat c \<Rightarrow> Some (Tensor (scalar c))
      | PInt c \<Rightarrow> Some (Tensor (scalar (of_int c)))
      | _ \<Rightarrow> None)"
| "eval F \<rho> (NList xs) = map_option Values (those (map (eval F \<rho>) xs))"
| "eval F \<rho> (Call l args k) =
     (case those (map (eval F \<rho>) args) of
        None \<Rightarrow> None
      | Some vs \<Rightarrow> run_layer F l \<rho> vs k)"
| "eval F \<rho> (LayerMethod l m) = run_layer_method F l m"
| "eval F \<rho> (TfCall f args kwargs k) =
     (case those (map (eval F \<rho>) args) of
        None \<Rightarrow> None
      | Some vs \<Rightarrow> run_tf F f kwargs vs k)"
| "eval F \<rho> (EmaCall e m args) =
     (case those (map (eval F \<rho>) args) of
        None \<Rightarrow> None
      | Some vs \<Rightarrow> run_ema F e m vs)"
| "eval F \<rho> (SelfCall m args k) =
     (case those (map (eval F \<rho>) args) of
        None \<Rightarrow> None
      | Some vs \<Rightarrow> run_self F m vs k)"
| "eval F \<rho> (Squeeze x axis) = lift1 (\<lambda>t. tf_squeeze t axis) (eval F \<rho> x)"
| "eval F \<rho> (ExpandDims x axis) = lift1 (\<lambda>t. tf_expand_dims t axis) (eval F \<rho> x)"
| "eval F \<rho> (Mul x y) = lift2 (tf_binop (*)) (eval F \<rho> x) (eval F \<rho> y)"
| "eval F \<rho> (Add x y) = lift2 (tf_binop (+)) (eval F \<rho> x) (eval F \<rho> y)"
| "eval F \<rho> (Ctl deps x) =
     (case those (map (eval F \<rho>) deps) of
        None \<Rightarrow> None
      | Some vs \<Rightarrow> eval F \<rho> x)"

section \<open>Vocabulary of the properties\<close>

text \<open>
  The feature streams a hyperparameter setting enables, word-level first, each as the
  pair (features, mask) its featurization layer returns; and the sum of their
  dimensions. The properties below compare what the code passes to the fusion module
  with these.
\<close>

definition word_stream :: "model \<Rightarrow> node \<Rightarrow> node \<Rightarrow> (node \<times> node) list" where
  "word_stream self text_word text_word_mask =
     (if model_word_feat_enable (hyperparams self)
      then [WordFeat_call (word_feat_layer self) text_word text_word_mask] else [])"

definition char_stream :: "model \<Rightarrow> node \<Rightarrow> node \<Rightarrow> (node \<times> node) list" where
  "char_stream self text_char text_char_mask =
     (if model_char_feat_enable (hyperparams self)
      then [CharFeat_call (char_feat_layer self) text_char text_char_mask] else [])"

definition enabled_streams ::
  "model \<Rightarrow> node \<Rightarrow> node \<Rightarrow> node \<Rightarrow> node \<Rightarrow> (node \<times> node) list" where
  "enabled_streams self text_word text_word_mask text_char text_char_mask =
     word_stream self text_word text_word_mask @ char_stream self text_char text_char_mask"

definition enabled_unit_dim :: "model \<Rightarrow> int" where
  "enabled_unit_dim self =
     (if model_word_feat_enable (hyperparams self)
      then model_word_embed_dim (hyperparams self) else 0)
   + (if model_char_feat_enable (hyperparams self)
      then model_char_unit_dim (hyperparams self) else 0)"

text \<open>The stages of the prediction graph, each applied to the previous one's results.\<close>

definition fusion_call :: "model \<Rightarrow> node \<Rightarrow> node \<Rightarrow> node \<Rightarrow> node \<Rightarrow> nat \<Rightarrow> node" where
  "fusion_call self text_word text_word_mask text_char text_char_mask k =
     Call (feat_fusion_layer self (enabled_unit_dim self))
       [NList (map fst (enabled_streams self text_word text_word_mask text_char
          text_char_mask)),
        NList (map snd (enabled_streams self text_word text_word_mask text_char
          text_char_mask))] k"

definition recurrent_call :: "model \<Rightarrow> node \<Rightarrow> node \<Rightarrow> nat \<Rightarrow> node" where
  "recurrent_call self text_feat text_feat_mask k =
     Call (sequence_modeling_layer self) [text_feat, text_feat_mask] k"

definition projection_call :: "model \<Rightarrow> node \<Rightarrow> node \<Rightarrow> nat \<Rightarrow> node" where
  "projection_call self text_sequence text_sequence_mask k =
     Call (projection_modeling_layer self) [text_sequence, text_sequence_mask] k"

definition predict_node :: "model \<Rightarrow> node \<Rightarrow> node \<Rightarrow> node \<Rightarrow> node \<Rightarrow> nat \<Rightarrow> node" where
  "predict_node self text_word text_word_mask text_char text_char_mask k =
     projection_call self
       (recurrent_call self
          (fusion_call self text_word text_word_mask text_char text_char_mask 0)
          (fusion_call self text_word text_word_mask text_char text_char_mask 1) 0)
       (recurrent_call self
          (fusion_call self text_word text_word_mask text_char text_char_mask 0)
          (fusion_call self text_word text_word_mask text_char text_char_mask 1) 1) k"

text \<open>The lines the three build methods print, in order.\<close>

definition build_messages :: "hyperparams \<Rightarrow> string list" where
  "build_messages hp =
     (if model_word_feat_enable hp then [''# build word-level representation layer'']
      else [])
   @ (if model_char_feat_enable hp then [''# build char-level representation layer'']
      else [])
   @ [''# build sequence modeling layer'']"

text \<open>
  The dropout rates a layer object was created with, read at the positions where this
  module passes them: the first argument of \<^verbatim>\<open>create_dropout_layer\<close>, the ninth of
  \<^verbatim>\<open>create_convolution_layer\<close> (a list), the sixth of \<^verbatim>\<open>create_recurrent_layer\<close>,
  the keyword \<^verbatim>\<open>dropout\<close> of \<^verbatim>\<open>FusionModule\<close>. The sixth argument of
  \<^verbatim>\<open>create_dense_layer\<close>, the constant list \<^verbatim>\<open>[0.0]\<close> in this module, is read as a
  list of rates as well. Embedding and pooling layers take no rate.
\<close>

fun floats :: "pyval \<Rightarrow> real list" where
  "floats (PFloat r) = [r]"
| "floats (PList vs) = concat (map floats vs)"
| "floats _ = []"

definition argn :: "pyval list \<Rightarrow> nat \<Rightarrow> pyval" where
  "argn args n = (case drop n args of [] \<Rightarrow> PNone | v # _ \<Rightarrow> v)"

fun dropout_rates :: "layer \<Rightarrow> real list" where
  "dropout_rates (Layer f args kwargs) =
     (if f = ''create_dropout_layer'' then floats (argn args 0)
      else if f = ''create_convolution_layer'' then floats (argn args 8)
      else if f = ''create_recurrent_layer'' then floats (argn args 5)
      else if f = ''create_dense_layer'' then floats (argn args 5)
      else if f = ''FusionModule'' then
        (case map_of kwargs ''dropout'' of None \<Rightarrow> [] | Some v \<Rightarrow> floats v)
      else [])"

text \<open>
  The one property of the delegated layers that the determinism of inference rests on:
  a layer all of whose dropout rates are zero computes the same result whatever the
  random draw.
\<close>

definition dropout_is_only_randomness :: "framework \<Rightarrow> bool" where
  "dropout_is_only_randomness F \<longleftrightarrow>
     (\<forall>l \<rho> \<rho>' vs k. list_all (\<lambda>r. r = 0) (dropout_rates l) \<longrightarrow>
        run_layer F l \<rho> vs k = run_layer F l \<rho>' vs k)"

section \<open>A concrete configuration\<close>

text \<open>
  One hyperparameter setting, data pipeline and world, on which the properties below
  are evaluated: both feature streams enabled, dropout 0.5 everywhere, regularization
  and moving average switched on.
\<close>

definition example_hyperparams :: hyperparams where
  "example_hyperparams =
     \<lparr>data_word_vocab_size = 100, data_char_vocab_size = 50, model_word_embed_dim = 8,
      model_word_dropout = 0.5, model_word_embed_pretrained = False,
      model_word_feat_trainable = True, model_word_feat_enable = True,
      model_char_embed_dim = 4, model_char_unit_dim = 6, model_char_window_size = [3],
      model_char_hidden_activation = ''relu'', model_char_dropout = 0.5,
      model_char_pooling_type = ''max'', model_char_feat_trainable = True,
      model_char_feat_enable = True, model_fusion_type = ''concate'',
      model_fusion_num_layer = 1, model_fusion_unit_dim = 14,
      model_fusion_hidden_activation = ''relu'', model_fusion_dropout = 0.5,
      model_fusion_trainable = True, model_sequence_num_layer = 1,
      model_sequence_unit_dim = 16, model_sequence_cell_type = ''lstm'',
      model_sequence_hidden_activation = ''tanh'', model_sequence_dropout = 0.5,
      model_sequence_forget_bias = 1, model_sequence_residual_connect = False,
      model_sequence_trainable = True, model_projection_unit_dim = 5,
      model_projection_trainable = True, train_random_seed = 0, train_ema_enable = True,
      train_ema_decay_rate = 0.999, train_regularization_enable = True,
      train_optimizer_learning_rate = 0.001, train_optimizer_warmup_enable = False,
      train_optimizer_decay_enable = False, train_ckpt_output_dir = ''out'',
      train_num_epoch = 3\<rparr>"

definition example_pipeline :: data_pipeline where
  "example_pipeline =
     \<lparr>input_text_word = Input ''text_word'', input_text_word_mask = Input ''text_word_mask'',
      input_text_char = Input ''text_char'', input_text_char_mask = Input ''text_char_mask'',
      input_label = Input ''label'', input_label_mask = Input ''label_mask''\<rparr>"

definition example_world :: world where
  "example_world =
     \<lparr>printed = [], dirs = {}, trainable_variables = [''graph/w''],
      regularization_losses = [], saved = []\<rparr>"

definition example_model :: "string \<Rightarrow> model" where
  "example_model md =
     BaseModel_init example_hyperparams example_pipeline md ''seq_crf''
       (PObj ''regularizer'') 1 0"

text \<open>
  A framework for that configuration. Every mask fed has shape \<open>[1, 2, 1]\<close>, with entry 1
  at the first position and 0 at the second; every embedding layer returns a tensor of
  shape \<open>[1, 2, 1, 3]\<close> filled with 7; any other layer returns its first argument when
  all its dropout rates are zero, and the random draw otherwise.
\<close>

definition example_mask :: rt where
  "example_mask = \<lparr>shp = [1, 2, 1], elt = (\<lambda>i. if i = [0, 0, 0] then 1 else 0)\<rparr>"

definition example_embedding :: rt where
  "example_embedding = \<lparr>shp = [1, 2, 1, 3], elt = (\<lambda>i. 7)\<rparr>"

definition example_framework :: framework where
  "example_framework =
     \<lparr>feed = (\<lambda>n. example_mask),
      variable = (\<lambda>n. scalar 0),
      run_layer = (\<lambda>l \<rho> vs k.
        if factory l = ''create_embedding_layer'' then Some (Tensor example_embedding)
        else if list_all (\<lambda>r. r = 0) (dropout_rates l) then
          (case vs of [] \<Rightarrow> None | v # _ \<Rightarrow> Some v)
        else Some (Tensor (scalar (real \<rho>)))),
      run_layer_method = (\<lambda>l m. None),
      run_tf = (\<lambda>f kwargs vs k. None),
      run_ema = (\<lambda>e m vs. None),
      run_self = (\<lambda>m vs k. None)\<rparr>"

text \<open>
  The masked embeddings this framework computes: 7 times the mask entry that
  broadcasting pairs with an index.
\<close>

definition example_word_product :: rt where
  "example_word_product =
     \<lparr>shp = [1, 2, 3], elt = (\<lambda>i. 7 * elt example_mask (bindex [1, 2, 1] i))\<rparr>"

definition example_char_product :: rt where
  "example_char_product =
     \<lparr>shp = [1, 2, 1, 3],
      elt = (\<lambda>i. 7 * elt example_mask
               (take 3 (bindex [1, 2, 1, 1] i) @ drop 4 (bindex [1, 2, 1, 1] i)))\<rparr>"

section \<open>The build methods in closed form\<close>

lemma feat_fusion_layer_placeholder [simp]:
  "feat_fusion_layer (self\<lparr>word_embedding_placeholder := p\<rparr>) n = feat_fusion_layer self n"
  by (simp add: feat_fusion_layer_def fusion_dropout_def)

lemma char_feat_layer_placeholder [simp]:
  "char_feat_layer (self\<lparr>word_embedding_placeholder := p\<rparr>) = char_feat_layer self"
  by (simp add: char_feat_layer_def char_dropout_def)

lemma sequence_modeling_layer_placeholder [simp]:
  "sequence_modeling_layer (self\<lparr>word_embedding_placeholder := p\<rparr>) =
     sequence_modeling_layer self"
  by (simp add: sequence_modeling_layer_def sequence_dropout_def)

lemma projection_modeling_layer_placeholder [simp]:
  "projection_modeling_layer (self\<lparr>word_embedding_placeholder := p\<rparr>) =
     projection_modeling_layer self"
  by (simp add: projection_modeling_layer_def)

lemma build_word_feat_eq:
  "build_word_feat self w tw twm [] [] =
     (map fst (word_stream self tw twm), map snd (word_stream self tw twm),
      (if model_word_feat_enable (hyperparams self)
       then model_word_embed_dim (hyperparams self) else 0),
      self\<lparr>word_embedding_placeholder :=
        Some (if model_word_feat_enable (hyperparams self)
              then WordFeat_get_embedding_placeholder (word_feat_layer self)
              else Lit PNone)\<rparr>,
      (if model_word_feat_enable (hyperparams self)
       then log_print w ''# build word-level representation layer'' else w))"
  by (simp add: build_word_feat_def word_stream_def)

lemma build_char_feat_eq:
  "build_char_feat self w tc tcm fs ms =
     (fs @ map fst (char_stream self tc tcm), ms @ map snd (char_stream self tc tcm),
      (if model_char_feat_enable (hyperparams self)
       then model_char_unit_dim (hyperparams self) else 0),
      (if model_char_feat_enable (hyperparams self)
       then log_print w ''# build char-level representation layer'' else w))"
  by (simp add: build_char_feat_def char_stream_def)

lemma build_representation_layer_eq:
  "build_representation_layer self w tw twm tc tcm =
     ((fusion_call self tw twm tc tcm 0, fusion_call self tw twm tc tcm 1),
      self\<lparr>word_embedding_placeholder :=
        Some (if model_word_feat_enable (hyperparams self)
              then WordFeat_get_embedding_placeholder (word_feat_layer self)
              else Lit PNone)\<rparr>,
      w\<lparr>printed := printed w @ butlast (build_messages (hyperparams self))\<rparr>)"
  unfolding build_representation_layer_def build_word_feat_eq build_char_feat_eq
  by (simp add: Let_def fusion_call_def enabled_streams_def enabled_unit_dim_def
        build_messages_def log_print_def char_stream_def butlast_append)

lemma build_modeling_layer_eq:
  "build_modeling_layer self w f m =
     ((projection_call self (recurrent_call self f m 0) (recurrent_call self f m 1) 0,
       projection_call self (recurrent_call self f m 0) (recurrent_call self f m 1) 1),
      self, w\<lparr>printed := printed w @ [''# build sequence modeling layer'']\<rparr>)"
  by (simp add: build_modeling_layer_def Let_def projection_call_def recurrent_call_def
        log_print_def)

lemma recurrent_call_placeholder [simp]:
  "recurrent_call (self\<lparr>word_embedding_placeholder := p\<rparr>) = recurrent_call self"
  by (simp add: recurrent_call_def fun_eq_iff)

lemma projection_call_placeholder [simp]:
  "projection_call (self\<lparr>word_embedding_placeholder := p\<rparr>) = projection_call self"
  by (simp add: projection_call_def fun_eq_iff)

lemma build_graph_eq:
  "build_graph self w tw twm tc tcm =
     ([predict_node self tw twm tc tcm 0, predict_node self tw twm tc tcm 1],
      self\<lparr>word_embedding_placeholder :=
        Some (if model_word_feat_enable (hyperparams self)
              then WordFeat_get_embedding_placeholder (word_feat_layer self)
              else Lit PNone)\<rparr>,
      w\<lparr>printed := printed w @ build_messages (hyperparams self)\<rparr>)"
  unfolding build_graph_def build_representation_layer_eq
  by (simp add: build_modeling_layer_eq predict_node_def build_messages_def butlast_append)

lemma SequenceCRF_init_eq:
  "SequenceCRF_init hp dp md scp reg ngpus gid w =
     (Inl (ValueError ''not enough values to unpack (expected 3, got 2)''),
      w\<lparr>printed := printed w @ [''# build graph''] @ build_messages hp\<rparr>)"
  unfolding SequenceCRF_init_def Let_def build_graph_eq
  by (simp add: BaseModel_init_def log_print_def)

section \<open>Construction always fails\<close>

text \<open>
  C2. For every mode and every hyperparameter setting, \<^verbatim>\<open>_build_graph\<close> returns a tuple
  of exactly two components, and \<^verbatim>\<open>__init__\<close>, which unpacks three, raises ValueError
  at that assignment. No object results; the only trace in the world is the lines
  printed while the graph was built: no directory has been created, no saver has been
  called, and none of the loss, decoding or checkpoint steps has been reached.
\<close>

theorem construction_fails_at_unpacking:
  "length (fst (build_graph self w tw twm tc tcm)) = 2 \<and>
   fst (SequenceCRF_init hp dp md scp reg ngpus gid w0) =
     Inl (ValueError ''not enough values to unpack (expected 3, got 2)'') \<and>
   snd (SequenceCRF_init hp dp md scp reg ngpus gid w0) =
     w0\<lparr>printed := printed w0 @ [''# build graph''] @ build_messages hp\<rparr> \<and>
   dirs (snd (SequenceCRF_init hp dp md scp reg ngpus gid w0)) = dirs w0 \<and>
   saved (snd (SequenceCRF_init hp dp md scp reg ngpus gid w0)) = saved w0"
  by (simp add: build_graph_eq SequenceCRF_init_eq)

section \<open>Order of the prediction graph\<close>

lemma WordFeat_call_eq:
  "WordFeat_call wfl iw im =
     (Call (wf_dropout_layer wfl)
        [Mul (Squeeze (Call (wf_embedding_layer wfl) [iw] 0) (- 2)) im, im] 0,
      Call (wf_dropout_layer wfl)
        [Mul (Squeeze (Call (wf_embedding_layer wfl) [iw] 0) (- 2)) im, im] 1)"
  by (simp add: WordFeat_call_def word_embedding_def Let_def)

lemma CharFeat_call_eq:
  "CharFeat_call cf ic im =
     (Call (cf_pooling_layer cf)
        [Call (cf_conv_layer cf)
           [Mul (Call (cf_embedding_layer cf) [ic] 0) (ExpandDims im (- 1)),
            ExpandDims im (- 1)] 0,
         Call (cf_conv_layer cf)
           [Mul (Call (cf_embedding_layer cf) [ic] 0) (ExpandDims im (- 1)),
            ExpandDims im (- 1)] 1] 0,
      Call (cf_pooling_layer cf)
        [Call (cf_conv_layer cf)
           [Mul (Call (cf_embedding_layer cf) [ic] 0) (ExpandDims im (- 1)),
            ExpandDims im (- 1)] 0,
         Call (cf_conv_layer cf)
           [Mul (Call (cf_embedding_layer cf) [ic] 0) (ExpandDims im (- 1)),
            ExpandDims im (- 1)] 1] 1)"
  by (simp add: CharFeat_call_def char_embedding_def char_embedding_mask_def Let_def)

text \<open>
  C1. For every receiver, mode and hyperparameter setting, the first component of the
  tuple \<^verbatim>\<open>_build_graph\<close> returns (the one \<^verbatim>\<open>__init__\<close> names \<^verbatim>\<open>predict\<close>) is output 0
  of the dense projection layer (\<^verbatim>\<open>create_dense_layer("single", 1, ..., "")\<close>, no
  activation) called on outputs 0 and 1 of the bidirectional recurrent layer
  (\<^verbatim>\<open>create_recurrent_layer("bi", ...)\<close>), itself called on outputs 0 and 1 of the
  fusion module, which is called on the enabled streams; the word stream is the dropout
  layer applied to the masked word embedding, the char stream the pooling of the
  convolution of the masked char embedding. The lines printed follow the same order.
  That output reaches no CRF operation: the constructor raises ValueError at the
  unpacking that follows, for every mode and hyperparameter setting.
\<close>

theorem prediction_graph_order:
  "fst (build_graph self w tw twm tc tcm) =
     [projection_call self
        (recurrent_call self (fusion_call self tw twm tc tcm 0)
           (fusion_call self tw twm tc tcm 1) 0)
        (recurrent_call self (fusion_call self tw twm tc tcm 0)
           (fusion_call self tw twm tc tcm 1) 1) 0,
      projection_call self
        (recurrent_call self (fusion_call self tw twm tc tcm 0)
           (fusion_call self tw twm tc tcm 1) 0)
        (recurrent_call self (fusion_call self tw twm tc tcm 0)
           (fusion_call self tw twm tc tcm 1) 1) 1] \<and>
   projection_call self a b k = Call (projection_modeling_layer self) [a, b] k \<and>
   factory (projection_modeling_layer self) = ''create_dense_layer'' \<and>
   take 6 (positional (projection_modeling_layer self)) =
     [PStr ''single'', PInt 1, PInt (model_projection_unit_dim (hyperparams self)), PInt 1,
      PStr [], PList [PFloat 0]] \<and>
   recurrent_call self a b k = Call (sequence_modeling_layer self) [a, b] k \<and>
   factory (sequence_modeling_layer self) = ''create_recurrent_layer'' \<and>
   take 1 (positional (sequence_modeling_layer self)) = [PStr ''bi''] \<and>
   fusion_call self tw twm tc tcm k =
     Call (feat_fusion_layer self (enabled_unit_dim self))
       [NList (map fst (enabled_streams self tw twm tc tcm)),
        NList (map snd (enabled_streams self tw twm tc tcm))] k \<and>
   factory (feat_fusion_layer self (enabled_unit_dim self)) = ''FusionModule'' \<and>
   enabled_streams self tw twm tc tcm =
     (if model_word_feat_enable (hyperparams self)
      then [WordFeat_call (word_feat_layer self) tw twm] else [])
   @ (if model_char_feat_enable (hyperparams self)
      then [CharFeat_call (char_feat_layer self) tc tcm] else []) \<and>
   fst (WordFeat_call (word_feat_layer self) tw twm) =
     Call (wf_dropout_layer (word_feat_layer self))
       [Mul (Squeeze (Call (wf_embedding_layer (word_feat_layer self)) [tw] 0) (- 2)) twm,
        twm] 0 \<and>
   factory (wf_embedding_layer (word_feat_layer self)) = ''create_embedding_layer'' \<and>
   fst (CharFeat_call (char_feat_layer self) tc tcm) =
     Call (cf_pooling_layer (char_feat_layer self))
       [Call (cf_conv_layer (char_feat_layer self))
          [Mul (Call (cf_embedding_layer (char_feat_layer self)) [tc] 0)
             (ExpandDims tcm (- 1)),
           ExpandDims tcm (- 1)] 0,
        Call (cf_conv_layer (char_feat_layer self))
          [Mul (Call (cf_embedding_layer (char_feat_layer self)) [tc] 0)
             (ExpandDims tcm (- 1)),
           ExpandDims tcm (- 1)] 1] 0 \<and>
   factory (cf_embedding_layer (char_feat_layer self)) = ''create_embedding_layer'' \<and>
   printed (snd (snd (build_graph self w tw twm tc tcm))) =
     printed w @ build_messages (hyperparams self) \<and>
   fst (SequenceCRF_init hp dp md scp reg ngpus gid w0) =
     Inl (ValueError ''not enough values to unpack (expected 3, got 2)'')"
  by (simp add: SequenceCRF_init_eq
        build_graph_eq predict_node_def projection_call_def recurrent_call_def
        fusion_call_def projection_modeling_layer_def sequence_modeling_layer_def
        feat_fusion_layer_def enabled_streams_def word_stream_def char_stream_def
        WordFeat_call_eq CharFeat_call_eq word_feat_layer_def char_feat_layer_def
        WordFeat_init_def CharFeat_init_def)

section \<open>What the fusion module receives\<close>

text \<open>
  C8. For every hyperparameter setting, the fusion module is called on exactly the
  enabled feature streams, the word-level one before the char-level one, and it is
  created with \<^verbatim>\<open>input_unit_dim\<close> equal to \<^verbatim>\<open>model_word_embed_dim\<close> if the word
  features are enabled (else 0) plus \<^verbatim>\<open>model_char_unit_dim\<close> if the char features are
  enabled (else 0).
\<close>

theorem fusion_receives_enabled_streams:
  "fst (build_representation_layer self w tw twm tc tcm) =
     (Call (feat_fusion_layer self (enabled_unit_dim self))
        [NList (map fst (enabled_streams self tw twm tc tcm)),
         NList (map snd (enabled_streams self tw twm tc tcm))] 0,
      Call (feat_fusion_layer self (enabled_unit_dim self))
        [NList (map fst (enabled_streams self tw twm tc tcm)),
         NList (map snd (enabled_streams self tw twm tc tcm))] 1) \<and>
   enabled_streams self tw twm tc tcm =
     (if model_word_feat_enable (hyperparams self)
      then [WordFeat_call (word_feat_layer self) tw twm] else [])
   @ (if model_char_feat_enable (hyperparams self)
      then [CharFeat_call (char_feat_layer self) tc tcm] else []) \<and>
   factory (feat_fusion_layer self (enabled_unit_dim self)) = ''FusionModule'' \<and>
   keyword (feat_fusion_layer self (enabled_unit_dim self)) ''input_unit_dim'' =
     Some (PInt ((if model_word_feat_enable (hyperparams self)
                  then model_word_embed_dim (hyperparams self) else 0)
               + (if model_char_feat_enable (hyperparams self)
                  then model_char_unit_dim (hyperparams self) else 0)))"
  by (simp add: build_representation_layer_eq fusion_call_def enabled_streams_def
        word_stream_def char_stream_def feat_fusion_layer_def enabled_unit_dim_def)

section \<open>Dropout and the determinism of inference\<close>

lemma eval_Mul: "eval F \<rho> (Mul x y) = lift2 (tf_binop (*)) (eval F \<rho> x) (eval F \<rho> y)"
  by simp

lemma eval_Squeeze: "eval F \<rho> (Squeeze x a) = lift1 (\<lambda>t. tf_squeeze t a) (eval F \<rho> x)"
  by simp

lemma eval_ExpandDims:
  "eval F \<rho> (ExpandDims x a) = lift1 (\<lambda>t. tf_expand_dims t a) (eval F \<rho> x)"
  by simp

lemma eval_NList: "eval F \<rho> (NList xs) = map_option Values (those (map (eval F \<rho>) xs))"
  by simp

lemma call_det:
  assumes "dropout_is_only_randomness F" "list_all (\<lambda>r. r = 0) (dropout_rates l)"
    "map (eval F \<rho>) args = map (eval F \<rho>') args"
  shows "eval F \<rho> (Call l args k) = eval F \<rho>' (Call l args k)"
proof -
  have a: "those (map (eval F \<rho>) args) = those (map (eval F \<rho>') args)"
    using assms(3) by (rule arg_cong)
  have r: "run_layer F l \<rho> vs k = run_layer F l \<rho>' vs k" for vs
    using assms(1,2) unfolding dropout_is_only_randomness_def by blast
  show ?thesis
    unfolding eval.simps a by (simp add: r split: option.splits)
qed

lemma word_layers_rates:
  "dropout_rates (wf_embedding_layer (word_feat_layer self)) = []"
  "dropout_rates (wf_dropout_layer (word_feat_layer self)) = [word_dropout self]"
  by (simp_all add: word_feat_layer_def WordFeat_init_def argn_def)

lemma char_layers_rates:
  "dropout_rates (cf_embedding_layer (char_feat_layer self)) = []"
  "dropout_rates (cf_conv_layer (char_feat_layer self)) = [char_dropout self]"
  "dropout_rates (cf_pooling_layer (char_feat_layer self)) = []"
  by (simp_all add: char_feat_layer_def CharFeat_init_def argn_def)

lemma other_layers_rates:
  "dropout_rates (feat_fusion_layer self n) = [fusion_dropout self]"
  "dropout_rates (sequence_modeling_layer self) = [sequence_dropout self]"
  "dropout_rates (projection_modeling_layer self) = [0]"
  by (simp_all add: feat_fusion_layer_def sequence_modeling_layer_def
        projection_modeling_layer_def argn_def)

lemma word_call_det:
  assumes F: "dropout_is_only_randomness F" and z: "word_dropout self = 0"
    and i: "eval F \<rho> tw = eval F \<rho>' tw" "eval F \<rho> twm = eval F \<rho>' twm"
  shows "map (eval F \<rho>) (map fst (word_stream self tw twm)) =
         map (eval F \<rho>') (map fst (word_stream self tw twm))"
    and "map (eval F \<rho>) (map snd (word_stream self tw twm)) =
         map (eval F \<rho>') (map snd (word_stream self tw twm))"
proof -
  let ?wf = "word_feat_layer self"
  have e: "eval F \<rho> (Call (wf_embedding_layer ?wf) [tw] 0) =
           eval F \<rho>' (Call (wf_embedding_layer ?wf) [tw] 0)"
    by (rule call_det[OF F]) (simp_all add: word_layers_rates i del: eval.simps)
  have m: "eval F \<rho> (word_embedding ?wf tw twm) = eval F \<rho>' (word_embedding ?wf tw twm)"
    unfolding word_embedding_def Let_def eval_Mul eval_Squeeze e i ..
  have d: "eval F \<rho> (Call (wf_dropout_layer ?wf) [word_embedding ?wf tw twm, twm] k) =
           eval F \<rho>' (Call (wf_dropout_layer ?wf) [word_embedding ?wf tw twm, twm] k)" for k
    by (rule call_det[OF F]) (simp_all add: word_layers_rates z m i del: eval.simps)
  show "map (eval F \<rho>) (map fst (word_stream self tw twm)) =
         map (eval F \<rho>') (map fst (word_stream self tw twm))"
    and "map (eval F \<rho>) (map snd (word_stream self tw twm)) =
         map (eval F \<rho>') (map snd (word_stream self tw twm))"
    using d[of 0] d[of 1]
    by (simp_all add: word_stream_def WordFeat_call_def Let_def del: eval.simps)
qed

lemma char_call_det:
  assumes F: "dropout_is_only_randomness F" and z: "char_dropout self = 0"
    and i: "eval F \<rho> tc = eval F \<rho>' tc" "eval F \<rho> tcm = eval F \<rho>' tcm"
  shows "map (eval F \<rho>) (map fst (char_stream self tc tcm)) =
         map (eval F \<rho>') (map fst (char_stream self tc tcm))"
    and "map (eval F \<rho>) (map snd (char_stream self tc tcm)) =
         map (eval F \<rho>') (map snd (char_stream self tc tcm))"
proof -
  let ?cf = "char_feat_layer self"
  let ?e = "char_embedding ?cf tc tcm" and ?m = "char_embedding_mask tcm"
  have e: "eval F \<rho> (Call (cf_embedding_layer ?cf) [tc] 0) =
           eval F \<rho>' (Call (cf_embedding_layer ?cf) [tc] 0)"
    by (rule call_det[OF F]) (simp_all add: char_layers_rates i del: eval.simps)
  have x: "eval F \<rho> ?m = eval F \<rho>' ?m"
    unfolding char_embedding_mask_def eval_ExpandDims i ..
  have m: "eval F \<rho> ?e = eval F \<rho>' ?e"
    unfolding char_embedding_def Let_def eval_Mul e x ..
  have c: "eval F \<rho> (Call (cf_conv_layer ?cf) [?e, ?m] k) =
           eval F \<rho>' (Call (cf_conv_layer ?cf) [?e, ?m] k)" for k
    by (rule call_det[OF F]) (simp_all add: char_layers_rates z m x del: eval.simps)
  have p: "eval F \<rho> (Call (cf_pooling_layer ?cf)
             [Call (cf_conv_layer ?cf) [?e, ?m] 0, Call (cf_conv_layer ?cf) [?e, ?m] 1] k) =
           eval F \<rho>' (Call (cf_pooling_layer ?cf)
             [Call (cf_conv_layer ?cf) [?e, ?m] 0, Call (cf_conv_layer ?cf) [?e, ?m] 1] k)" for k
    using c[of 0] c[of 1]
    by (intro call_det[OF F]) (simp_all add: char_layers_rates del: eval.simps)
  show "map (eval F \<rho>) (map fst (char_stream self tc tcm)) =
         map (eval F \<rho>') (map fst (char_stream self tc tcm))"
    and "map (eval F \<rho>) (map snd (char_stream self tc tcm)) =
         map (eval F \<rho>') (map snd (char_stream self tc tcm))"
    using p[of 0] p[of 1]
    by (simp_all add: char_stream_def CharFeat_call_def Let_def del: eval.simps)
qed

lemma predict_node_det:
  assumes F: "dropout_is_only_randomness F"
    and z: "word_dropout self = 0" "char_dropout self = 0" "fusion_dropout self = 0"
      "sequence_dropout self = 0"
    and i: "eval F \<rho> tw = eval F \<rho>' tw" "eval F \<rho> twm = eval F \<rho>' twm"
      "eval F \<rho> tc = eval F \<rho>' tc" "eval F \<rho> tcm = eval F \<rho>' tcm"
  shows "eval F \<rho> (predict_node self tw twm tc tcm k) =
         eval F \<rho>' (predict_node self tw twm tc tcm k)"
proof -
  let ?s = "enabled_streams self tw twm tc tcm"
  have s1: "map (eval F \<rho>) (map fst ?s) = map (eval F \<rho>') (map fst ?s)"
    unfolding enabled_streams_def map_append
    using word_call_det(1)[OF F z(1) i(1,2)] char_call_det(1)[OF F z(2) i(3,4)] by simp
  have s2: "map (eval F \<rho>) (map snd ?s) = map (eval F \<rho>') (map snd ?s)"
    unfolding enabled_streams_def map_append
    using word_call_det(2)[OF F z(1) i(1,2)] char_call_det(2)[OF F z(2) i(3,4)] by simp
  have l1: "eval F \<rho> (NList (map fst ?s)) = eval F \<rho>' (NList (map fst ?s))"
    unfolding eval_NList s1 ..
  have l2: "eval F \<rho> (NList (map snd ?s)) = eval F \<rho>' (NList (map snd ?s))"
    unfolding eval_NList s2 ..
  have fu: "eval F \<rho> (fusion_call self tw twm tc tcm j) =
            eval F \<rho>' (fusion_call self tw twm tc tcm j)" for j
    unfolding fusion_call_def
    by (rule call_det[OF F]) (simp_all add: other_layers_rates z l1 l2 del: eval.simps)
  have re: "eval F \<rho> (recurrent_call self (fusion_call self tw twm tc tcm 0)
                (fusion_call self tw twm tc tcm 1) j) =
            eval F \<rho>' (recurrent_call self (fusion_call self tw twm tc tcm 0)
                (fusion_call self tw twm tc tcm 1) j)" for j
    unfolding recurrent_call_def
    using fu[of 0] fu[of 1]
    by (intro call_det[OF F]) (simp_all add: other_layers_rates z del: eval.simps)
  show ?thesis
    unfolding predict_node_def projection_call_def
    using re[of 0] re[of 1]
    by (intro call_det[OF F]) (simp_all add: other_layers_rates del: eval.simps)
qed

lemma non_train_rates:
  assumes "mode self \<noteq> ''train''"
  shows "word_dropout self = 0" "char_dropout self = 0" "fusion_dropout self = 0"
    "sequence_dropout self = 0"
  using assms
  by (simp_all add: word_dropout_def char_dropout_def fusion_dropout_def sequence_dropout_def)

text \<open>
  C9. The dropout rate handed to the word-level layer, the char-level layer, the fusion
  module and the sequence-modeling layer is the configured rate in mode \<^verbatim>\<open>train\<close> and
  exactly 0.0 in every other mode, and it is the rate their dropout, convolution, fusion
  and recurrent layers are created with. Hence two evaluations of the prediction graph
  built in a mode other than \<^verbatim>\<open>train\<close>, under the same framework (the same variable
  values) and with inputs that evaluate alike, give the same outputs whatever the two
  random draws, provided the delegated layers draw randomness only for a nonzero
  dropout rate.
\<close>

theorem inference_dropout_is_zero:
  "wf_dropout (word_feat_layer self) =
     (if mode self = ''train'' then model_word_dropout (hyperparams self) else 0) \<and>
   cf_dropout (char_feat_layer self) =
     (if mode self = ''train'' then model_char_dropout (hyperparams self) else 0) \<and>
   keyword (feat_fusion_layer self n) ''dropout'' =
     Some (PFloat (if mode self = ''train'' then model_fusion_dropout (hyperparams self)
                   else 0)) \<and>
   argn (positional (sequence_modeling_layer self)) 5 =
     PFloat (if mode self = ''train'' then model_sequence_dropout (hyperparams self) else 0) \<and>
   positional (wf_dropout_layer (word_feat_layer self)) =
     [PFloat (wf_dropout (word_feat_layer self)), PInt 0, PInt 0] \<and>
   argn (positional (cf_conv_layer (char_feat_layer self))) 8 =
     PList [PFloat (cf_dropout (char_feat_layer self))] \<and>
   (mode self \<noteq> ''train'' \<and> dropout_is_only_randomness F \<and>
    eval F \<rho> tw = eval F \<rho>' tw \<and> eval F \<rho> twm = eval F \<rho>' twm \<and>
    eval F \<rho> tc = eval F \<rho>' tc \<and> eval F \<rho> tcm = eval F \<rho>' tcm \<longrightarrow>
    map (eval F \<rho>) (fst (build_graph self w tw twm tc tcm)) =
    map (eval F \<rho>') (fst (build_graph self w tw twm tc tcm)))"
proof -
  have d: "map (eval F \<rho>) (fst (build_graph self w tw twm tc tcm)) =
           map (eval F \<rho>') (fst (build_graph self w tw twm tc tcm))"
    if "mode self \<noteq> ''train''" "dropout_is_only_randomness F"
      "eval F \<rho> tw = eval F \<rho>' tw" "eval F \<rho> twm = eval F \<rho>' twm"
      "eval F \<rho> tc = eval F \<rho>' tc" "eval F \<rho> tcm = eval F \<rho>' tcm"
    using predict_node_det[OF that(2) non_train_rates[OF that(1)] that(3-6), of 0]
      predict_node_det[OF that(2) non_train_rates[OF that(1)] that(3-6), of 1]
    by (simp add: build_graph_eq del: eval.simps)
  have r: "wf_dropout (word_feat_layer self) =
      (if mode self = ''train'' then model_word_dropout (hyperparams self) else 0)"
    "cf_dropout (char_feat_layer self) =
      (if mode self = ''train'' then model_char_dropout (hyperparams self) else 0)"
    "keyword (feat_fusion_layer self n) ''dropout'' =
      Some (PFloat (if mode self = ''train'' then model_fusion_dropout (hyperparams self)
                    else 0))"
    "argn (positional (sequence_modeling_layer self)) 5 =
      PFloat (if mode self = ''train'' then model_sequence_dropout (hyperparams self) else 0)"
    "positional (wf_dropout_layer (word_feat_layer self)) =
      [PFloat (wf_dropout (word_feat_layer self)), PInt 0, PInt 0]"
    "argn (positional (cf_conv_layer (char_feat_layer self))) 8 =
      PList [PFloat (cf_dropout (char_feat_layer self))]"
    by (simp_all add: word_feat_layer_def WordFeat_init_def char_feat_layer_def
          CharFeat_init_def feat_fusion_layer_def sequence_modeling_layer_def argn_def
          word_dropout_def char_dropout_def fusion_dropout_def sequence_dropout_def)
  show ?thesis using r d by blast
qed

text \<open>
  The theorem at the concrete configuration, with random draws 0 and 1. In mode
  \<^verbatim>\<open>train\<close> the same framework does tell the two draws apart.
\<close>

lemma example_framework_det: "dropout_is_only_randomness example_framework"
  by (simp add: dropout_is_only_randomness_def example_framework_def)

theorem inference_dropout_is_zero_witness:
  "mode (example_model ''infer'') \<noteq> ''train'' \<and>
   dropout_is_only_randomness example_framework \<and>
   wf_dropout (word_feat_layer (example_model ''infer'')) = 0 \<and>
   wf_dropout (word_feat_layer (example_model ''train'')) = 0.5 \<and>
   run_layer example_framework (sequence_modeling_layer (example_model ''train''))
     0 [] 0 \<noteq>
   run_layer example_framework (sequence_modeling_layer (example_model ''train''))
     1 [] 0 \<and>
   map (eval example_framework 0)
     (fst (build_graph (example_model ''infer'') example_world (Input ''text_word'')
        (Input ''text_word_mask'') (Input ''text_char'') (Input ''text_char_mask''))) =
   map (eval example_framework 1)
     (fst (build_graph (example_model ''infer'') example_world (Input ''text_word'')
        (Input ''text_word_mask'') (Input ''text_char'') (Input ''text_char_mask'')))"
proof -
  have m: "mode (example_model ''infer'') \<noteq> ''train''"
    by (simp add: example_model_def BaseModel_init_def)
  have t: "mode (example_model ''train'') = ''train''"
    "model_word_dropout (hyperparams (example_model ''train'')) = 0.5"
    by (simp_all add: example_model_def BaseModel_init_def example_hyperparams_def)
  have c: "run_layer example_framework (sequence_modeling_layer (example_model ''train''))
             0 [] 0 \<noteq>
           run_layer example_framework (sequence_modeling_layer (example_model ''train''))
             1 [] 0"
  proof -
    have f: "factory (sequence_modeling_layer s) = ''create_recurrent_layer''" for s
      by (simp add: sequence_modeling_layer_def)
    have z: "sequence_dropout (example_model ''train'') = 1 / 2"
      by (simp add: sequence_dropout_def example_model_def BaseModel_init_def
            example_hyperparams_def)
    show ?thesis
      by (simp add: example_framework_def other_layers_rates f z scalar_def fun_eq_iff)
  qed
  show ?thesis
    using inference_dropout_is_zero[of "example_model ''infer''" 0 example_framework 0
        "Input ''text_word''" 1 "Input ''text_word_mask''" "Input ''text_char''"
        "Input ''text_char_mask''" example_world]
      inference_dropout_is_zero[of "example_model ''train''"]
      m t example_framework_det c
    by simp
qed

section \<open>Masking of the embeddings\<close>

lemma tf_mul_zero:
  "tf_binop (*) x m = Some y \<Longrightarrow> elt m (bindex (shp m) i) = 0 \<Longrightarrow> elt y i = 0"
  by (auto simp: tf_binop_def split: option.splits)

lemma lift2_Some:
  "lift2 f a b = Some (Tensor y) \<Longrightarrow> \<exists>x m. a = Some (Tensor x) \<and> b = Some (Tensor m) \<and> f x m = Some y"
  by (cases "(f, a, b)" rule: lift2.cases) auto

lemma lift1_Some:
  "lift1 f a = Some (Tensor y) \<Longrightarrow> \<exists>x. a = Some (Tensor x) \<and> f x = Some y"
  by (cases "(f, a)" rule: lift1.cases) auto

lemma expand_last:
  "tf_expand_dims m (- 1) =
     Some \<lparr>shp = shp m @ [1],
           elt = (\<lambda>i. elt m (take (length (shp m)) i @ drop (length (shp m) + 1) i))\<rparr>"
  by (simp add: tf_expand_dims_def Let_def)

lemma bindex_snoc:
  assumes "length j = length s"
  shows "bindex (s @ [1]) (p @ j @ [c]) = bindex s j @ [0]"
proof -
  have "drop (length (p @ j @ [c]) - length (s @ [1])) (p @ j @ [c]) = j @ [c]"
    using assms by simp
  then show ?thesis
    using assms unfolding bindex_def by simp
qed

lemma length_bindex: "length j = length s \<Longrightarrow> length (bindex s j) = length s"
  by (simp add: bindex_def)

lemma word_masked_zero:
  assumes "eval F \<rho> (word_embedding wfl iw im) = Some (Tensor y)"
    and "eval F \<rho> im = Some (Tensor m)"
    and "elt m (bindex (shp m) i) = 0"
  shows "elt y i = 0"
proof -
  from assms(1) obtain x m' where
    "eval F \<rho> im = Some (Tensor m')" "tf_binop (*) x m' = Some y"
    unfolding word_embedding_def Let_def eval.simps by (blast dest: lift2_Some)
  with assms(2,3) show ?thesis by (auto dest: tf_mul_zero)
qed

lemma char_masked_zero:
  assumes "eval F \<rho> (char_embedding cfl ic icm) = Some (Tensor y)"
    and "eval F \<rho> icm = Some (Tensor m)"
    and "length j = length (shp m)"
    and "elt m (bindex (shp m) j) = 0"
  shows "elt y (p @ j @ [c]) = 0"
proof -
  from assms(1) obtain x me where
    me: "eval F \<rho> (ExpandDims icm (- 1)) = Some (Tensor me)" and y: "tf_binop (*) x me = Some y"
    unfolding char_embedding_def char_embedding_mask_def Let_def eval.simps(12)
    by (blast dest: lift2_Some)
  from me assms(2) have "tf_expand_dims m (- 1) = Some me"
    by (auto dest: lift1_Some)
  then have me_eq: "me = \<lparr>shp = shp m @ [1],
           elt = (\<lambda>i. elt m (take (length (shp m)) i @ drop (length (shp m) + 1) i))\<rparr>"
    by (simp add: expand_last)
  have b: "bindex (shp m @ [1]) (p @ j @ [c]) = bindex (shp m) j @ [0]"
    using assms(3) by (rule bindex_snoc)
  have l: "length (bindex (shp m) j) = length (shp m)"
    using assms(3) by (rule length_bindex)
  have "elt me (bindex (shp me) (p @ j @ [c])) = elt m (bindex (shp m) j)"
    unfolding me_eq by (simp add: b l del: One_nat_def)
  then show ?thesis using y assms(4) by (auto dest: tf_mul_zero)
qed


lemma masked_general:
  assumes "eval F \<rho> (Mul a b) = Some (Tensor y)" and "eval F \<rho> b = Some (Tensor m)"
    and "elt m (bindex (shp m) i) = 0"
  shows "elt y i = 0"
proof -
  from assms(1) obtain x m' where
    "eval F \<rho> b = Some (Tensor m')" "tf_binop (*) x m' = Some y"
    unfolding eval.simps by (blast dest: lift2_Some)
  with assms(2,3) show ?thesis by (auto dest: tf_mul_zero)
qed

text \<open>
  C10. In \<^verbatim>\<open>WordFeat.__call__\<close> the value handed to the dropout layer, and in
  \<^verbatim>\<open>CharFeat.__call__\<close> the value handed to the convolution layer, is the product of
  the embedding layer's output with the input mask (the word embedding after dropping
  its singleton axis, the char mask after \<^verbatim>\<open>expand_dims\<close>). Whatever the delegated layers and the inputs are, wherever that product
  has a value, every entry of it whose mask entry (the one broadcasting pairs with it)
  is 0 is exactly 0; for the char features, in the coordinates of the mask before it is
  expanded: at a position \<open>j\<close> where the mask is 0, every component \<open>c\<close> of the
  embedding is 0.
\<close>

theorem masked_positions_are_zero:
  "fst (WordFeat_call wfl iw im) =
     Call (wf_dropout_layer wfl) [word_embedding wfl iw im, im] 0 \<and>
   snd (WordFeat_call wfl iw im) =
     Call (wf_dropout_layer wfl) [word_embedding wfl iw im, im] 1 \<and>
   word_embedding wfl iw im =
     Mul (Squeeze (Call (wf_embedding_layer wfl) [iw] 0) (- 2)) im \<and>
   (eval F \<rho> (word_embedding wfl iw im) = Some (Tensor y) \<and>
    eval F \<rho> im = Some (Tensor m) \<and> elt m (bindex (shp m) i) = 0 \<longrightarrow> elt y i = 0) \<and>
   fst (CharFeat_call cfl ic icm) =
     Call (cf_pooling_layer cfl)
       [Call (cf_conv_layer cfl) [char_embedding cfl ic icm, char_embedding_mask icm] 0,
        Call (cf_conv_layer cfl) [char_embedding cfl ic icm, char_embedding_mask icm] 1] 0 \<and>
   snd (CharFeat_call cfl ic icm) =
     Call (cf_pooling_layer cfl)
       [Call (cf_conv_layer cfl) [char_embedding cfl ic icm, char_embedding_mask icm] 0,
        Call (cf_conv_layer cfl) [char_embedding cfl ic icm, char_embedding_mask icm] 1] 1 \<and>
   char_embedding cfl ic icm =
     Mul (Call (cf_embedding_layer cfl) [ic] 0) (char_embedding_mask icm) \<and>
   char_embedding_mask icm = ExpandDims icm (- 1) \<and>
   (eval F \<rho> (char_embedding cfl ic icm) = Some (Tensor y') \<and>
    eval F \<rho> (char_embedding_mask icm) = Some (Tensor me) \<and>
    elt me (bindex (shp me) i') = 0 \<longrightarrow> elt y' i' = 0) \<and>
   (eval F \<rho> (char_embedding cfl ic icm) = Some (Tensor y') \<and>
    eval F \<rho> icm = Some (Tensor m') \<and> length j = length (shp m') \<and>
    elt m' (bindex (shp m') j) = 0 \<longrightarrow> elt y' (p @ j @ [c]) = 0)"
proof -
  have s: "fst (WordFeat_call wfl iw im) =
      Call (wf_dropout_layer wfl) [word_embedding wfl iw im, im] 0"
    "snd (WordFeat_call wfl iw im) =
      Call (wf_dropout_layer wfl) [word_embedding wfl iw im, im] 1"
    "word_embedding wfl iw im =
      Mul (Squeeze (Call (wf_embedding_layer wfl) [iw] 0) (- 2)) im"
    "fst (CharFeat_call cfl ic icm) =
     Call (cf_pooling_layer cfl)
       [Call (cf_conv_layer cfl) [char_embedding cfl ic icm, char_embedding_mask icm] 0,
        Call (cf_conv_layer cfl) [char_embedding cfl ic icm, char_embedding_mask icm] 1] 0"
    "snd (CharFeat_call cfl ic icm) =
     Call (cf_pooling_layer cfl)
       [Call (cf_conv_layer cfl) [char_embedding cfl ic icm, char_embedding_mask icm] 0,
        Call (cf_conv_layer cfl) [char_embedding cfl ic icm, char_embedding_mask icm] 1] 1"
    "char_embedding cfl ic icm =
      Mul (Call (cf_embedding_layer cfl) [ic] 0) (char_embedding_mask icm)"
    "char_embedding_mask icm = ExpandDims icm (- 1)"
    by (simp_all add: WordFeat_call_def CharFeat_call_def Let_def word_embedding_def
          char_embedding_def char_embedding_mask_def)
  have w: "elt y i = 0"
    if "eval F \<rho> (word_embedding wfl iw im) = Some (Tensor y)"
      "eval F \<rho> im = Some (Tensor m)" "elt m (bindex (shp m) i) = 0"
    using that by (rule word_masked_zero)
  have c1: "elt y' i' = 0"
    if "eval F \<rho> (char_embedding cfl ic icm) = Some (Tensor y')"
      "eval F \<rho> (char_embedding_mask icm) = Some (Tensor me)"
      "elt me (bindex (shp me) i') = 0"
    using that unfolding s(6) by (rule masked_general)
  have c2: "elt y' (p @ j @ [c]) = 0"
    if "eval F \<rho> (char_embedding cfl ic icm) = Some (Tensor y')"
      "eval F \<rho> icm = Some (Tensor m')" "length j = length (shp m')"
      "elt m' (bindex (shp m') j) = 0"
    using that by (rule char_masked_zero)
  show ?thesis using s w c1 c2 by blast
qed

text \<open>
  The theorem at the concrete configuration: the second position is masked out and its
  entries are 0, the first is not and its entries are 7.
\<close>

lemma example_eval_Input: "eval example_framework \<rho> (Input n) = Some (Tensor example_mask)"
  by (simp add: example_framework_def)

lemma example_eval_embedding:
  "factory l = ''create_embedding_layer'' \<Longrightarrow>
   eval example_framework \<rho> (Call l [Input n] k) = Some (Tensor example_embedding)"
  by (simp add: example_framework_def)

lemma example_squeeze:
  "tf_squeeze example_embedding (- 2) = Some \<lparr>shp = [1, 2, 3], elt = (\<lambda>i. 7)\<rparr>"
  by (simp add: tf_squeeze_def example_embedding_def Let_def)

lemma bshape_example: "bshape [Suc 0, 2, 3] [Suc 0, 2, Suc 0] = Some [Suc 0, 2, 3]"
  by (simp add: bshape_def pad_def bdim_def)

lemma example_word_eval:
  assumes "factory (wf_embedding_layer wfl) = ''create_embedding_layer''"
  shows "eval example_framework \<rho> (word_embedding wfl (Input a) (Input b)) =
         Some (Tensor example_word_product)"
  unfolding word_embedding_def Let_def eval_Mul eval_Squeeze
    example_eval_embedding[OF assms] example_eval_Input
  by (simp add: example_squeeze tf_binop_def bshape_example example_word_product_def
        example_mask_def)

lemma bshape_example_char:
  "bshape [Suc 0, 2, Suc 0, 3] [Suc 0, 2, Suc 0, Suc 0] = Some [Suc 0, 2, Suc 0, 3]"
  by (simp add: bshape_def pad_def bdim_def)

lemma take3_drop4:
  "take 3 xs = take (Suc (Suc (Suc 0))) xs" "drop 4 xs = drop (Suc (Suc (Suc (Suc 0)))) xs"
  by (simp_all add: eval_nat_numeral)

lemma example_char_eval:
  assumes "factory (cf_embedding_layer cfl) = ''create_embedding_layer''"
  shows "eval example_framework \<rho> (char_embedding cfl (Input a) (Input b)) =
         Some (Tensor example_char_product)"
  unfolding char_embedding_def char_embedding_mask_def Let_def eval_Mul eval_ExpandDims
    example_eval_embedding[OF assms] example_eval_Input
  by (simp add: tf_expand_dims_def Let_def tf_binop_def bshape_example_char
        example_char_product_def example_mask_def example_embedding_def take3_drop4)

theorem masked_positions_are_zero_witness:
  "eval example_framework 0
     (word_embedding (word_feat_layer (example_model ''infer'')) (Input ''text_word'')
        (Input ''text_word_mask'')) = Some (Tensor example_word_product) \<and>
   eval example_framework 0 (Input ''text_word_mask'') = Some (Tensor example_mask) \<and>
   elt example_mask (bindex (shp example_mask) [0, 1, 2]) = 0 \<and>
   elt example_word_product [0, 1, 2] = 0 \<and>
   elt example_word_product [0, 0, 2] = 7 \<and>
   eval example_framework 0
     (char_embedding (char_feat_layer (example_model ''infer'')) (Input ''text_char'')
        (Input ''text_char_mask'')) = Some (Tensor example_char_product) \<and>
   eval example_framework 0 (Input ''text_char_mask'') = Some (Tensor example_mask) \<and>
   length [0, 1, 0 :: nat] = length (shp example_mask) \<and>
   elt example_mask (bindex (shp example_mask) [0, 1, 0]) = 0 \<and>
   elt example_char_product ([] @ [0, 1, 0] @ [2]) = 0 \<and>
   elt example_char_product [0, 0, 0, 2] = 7"
proof -
  let ?wfl = "word_feat_layer (example_model ''infer'')"
  let ?cfl = "char_feat_layer (example_model ''infer'')"
  have fw: "factory (wf_embedding_layer ?wfl) = ''create_embedding_layer''"
    by (simp add: word_feat_layer_def WordFeat_init_def)
  have fc: "factory (cf_embedding_layer ?cfl) = ''create_embedding_layer''"
    by (simp add: char_feat_layer_def CharFeat_init_def)
  note ew = example_word_eval[OF fw, of 0 "''text_word''" "''text_word_mask''"]
  note ec = example_char_eval[OF fc, of 0 "''text_char''" "''text_char_mask''"]
  note ei = example_eval_Input[of 0]
  have mw: "elt example_mask (bindex (shp example_mask) [0, 1, 2]) = 0"
    by (simp add: example_mask_def bindex_def)
  have mc: "elt example_mask (bindex (shp example_mask) [0, 1, 0]) = 0"
    "length [0, 1, 0 :: nat] = length (shp example_mask)"
    by (simp_all add: example_mask_def bindex_def)
  have u: "elt example_word_product [0, 0, 2] = 7" "elt example_char_product [0, 0, 0, 2] = 7"
    by (simp_all add: example_word_product_def example_char_product_def example_mask_def
          bindex_def)
  from masked_positions_are_zero[of ?wfl "Input ''text_word''" "Input ''text_word_mask''"
      example_framework 0 example_word_product example_mask "[0, 1, 2]" ?cfl
      "Input ''text_char''" "Input ''text_char_mask''" example_char_product _ _
      example_mask "[0, 1, 0]" "[]" 2]
  have "elt example_word_product [0, 1, 2] = 0"
    "elt example_char_product ([] @ [0, 1, 0] @ [2]) = 0"
    using ew ec ei mw mc by blast+
  then show ?thesis using ew ec ei mw mc u by blast
qed

section \<open>The constructor after the unpacking\<close>

text \<open>
  What the code of \<^verbatim>\<open>__init__\<close> that follows the unpacking computes from the three
  values it expects. The constructor never gets there; these facts record what it is
  written to do.
\<close>

lemma compute_loss_eq:
  "compute_loss label predict sequence_length transition_matrix =
     TfCall ''tf.reduce_mean''
       [Mul (Lit (PFloat (- 1)))
          (TfCall ''tf.contrib.crf.crf_log_likelihood''
             [predict, label, sequence_length, transition_matrix] [] 0)] [] 0"
  by (simp add: compute_loss_def Let_def)

lemma init_lookup_eq:
  "variable_list (init_lookup self w) = trainable_variables w"
  "ema (init_lookup self w) =
     (if train_ema_enable (hyperparams self)
      then Some (ExponentialMovingAverage (train_ema_decay_rate (hyperparams self)))
      else ema self)"
  "variable_lookup (init_lookup self w) =
     (if train_ema_enable (hyperparams self)
      then map (\<lambda>v. (average_name
             (ExponentialMovingAverage (train_ema_decay_rate (hyperparams self))) v, Var v))
             (trainable_variables w)
      else map (\<lambda>v. (v, Var v)) (trainable_variables w))"
  "mode (init_lookup self w) = mode self"
  "hyperparams (init_lookup self w) = hyperparams self"
  "regularizer (init_lookup self w) = regularizer self"
  by (simp_all add: init_lookup_def Let_def)

lemma init_infer_eq:
  "mode self = ''infer'' \<Longrightarrow>
   infer_predict (init_infer self sl p pm t) =
     Some (TfCall ''tf.contrib.crf.crf_decode'' [p, t, sl] [] 0) \<and>
   infer_predict_mask (init_infer self sl p pm t) = Some pm"
  by (simp add: init_infer_def)

lemma init_infer_fields:
  "mode (init_infer self sl p pm t) = mode self"
  "hyperparams (init_infer self sl p pm t) = hyperparams self"
  "ema (init_infer self sl p pm t) = ema self"
  "variable_list (init_infer self sl p pm t) = variable_list self"
  "variable_lookup (init_infer self sl p pm t) = variable_lookup self"
  "regularizer (init_infer self sl p pm t) = regularizer self"
  by (simp_all add: init_infer_def)

lemma init_train_train:
  assumes "mode self = ''train''" "ema self = Some e \<or> \<not> train_ema_enable (hyperparams self)"
  shows "\<exists>s. init_train self w l sl p t =
            (Inr s, w\<lparr>printed := printed w @ train_messages (hyperparams self)\<rparr>) \<and>
     train_loss s = Some (train_loss_node self w l sl p t) \<and>
     update_model s = Some (SelfCall ''_minimize_loss'' [train_loss_node self w l sl p t] 0) \<and>
     update_op s =
       Some (if train_ema_enable (hyperparams self)
             then Ctl [SelfCall ''_minimize_loss'' [train_loss_node self w l sl p t] 0]
                    (EmaCall e ''apply'' [NList (map Var (variable_list self))])
             else SelfCall ''_minimize_loss'' [train_loss_node self w l sl p t] 0) \<and>
     variable_lookup s =
       (if train_ema_enable (hyperparams self)
        then map (\<lambda>v. (average_name e v, EmaCall e ''average'' [Var v])) (variable_list self)
        else variable_lookup self) \<and>
     hyperparams s = hyperparams self"
proof -
  have p: "foldl log_print w ms = w\<lparr>printed := printed w @ ms\<rparr>" for ms
    by (induction ms arbitrary: w) (simp_all add: log_print_def)
  show ?thesis
  proof (cases "train_ema_enable (hyperparams self)")
    case True
    with assms(2) have "ema self = Some e" by simp
    with True assms(1) show ?thesis
      by (simp add: init_train_def Let_def p)
  next
    case False
    with assms(1) show ?thesis
      by (simp add: init_train_def Let_def p)
  qed
qed

lemma init_train_other:
  "mode self \<noteq> ''train'' \<Longrightarrow> init_train self w l sl p t = (Inr self, w)"
  by (simp add: init_train_def)

lemma init_saver_eq:
  "ckpt_debug_saver (fst (init_saver self w)) = Some (Saver (variable_lookup self) [])"
  "ckpt_epoch_saver (fst (init_saver self w)) =
     Some (Saver (variable_lookup self)
       [(''max_to_keep'', PInt (train_num_epoch (hyperparams self)))])"
  "ckpt_debug_name (fst (init_saver self w)) =
     Some (path_join (path_join (train_ckpt_output_dir (hyperparams self)) ''debug'')
       ''model_debug_ckpt'')"
  "ckpt_epoch_name (fst (init_saver self w)) =
     Some (path_join (path_join (train_ckpt_output_dir (hyperparams self)) ''epoch'')
       ''model_epoch_ckpt'')"
  by (simp_all add: init_saver_def Let_def)


lemma init_saver_keeps:
  "train_loss (fst (init_saver self w)) = train_loss self"
  "update_model (fst (init_saver self w)) = update_model self"
  "update_op (fst (init_saver self w)) = update_op self"
  "variable_lookup (fst (init_saver self w)) = variable_lookup self"
  "infer_predict (fst (init_saver self w)) = infer_predict self"
  "infer_predict_mask (fst (init_saver self w)) = infer_predict_mask self"
  "optimizer (fst (init_saver self w)) = optimizer self"
  by (simp_all add: init_saver_def Let_def)

lemma train_loss_node_cong:
  "hyperparams s = hyperparams self \<Longrightarrow> regularizer s = regularizer self \<Longrightarrow>
   train_loss_node s w l sl p t = train_loss_node self w l sl p t"
  by (simp add: train_loss_node_def)

lemma init_body_train:
  assumes "mode self = ''train''"
  shows "\<exists>s w'. init_body self w l sl p pm t = (Inr s, w') \<and>
     train_loss s = Some (train_loss_node self w l sl p t) \<and>
     update_model s = Some (SelfCall ''_minimize_loss'' [train_loss_node self w l sl p t] 0) \<and>
     update_op s =
       Some (if train_ema_enable (hyperparams self)
             then Ctl [SelfCall ''_minimize_loss'' [train_loss_node self w l sl p t] 0]
                    (EmaCall (ExponentialMovingAverage (train_ema_decay_rate (hyperparams self)))
                       ''apply'' [NList (map Var (trainable_variables w))])
             else SelfCall ''_minimize_loss'' [train_loss_node self w l sl p t] 0) \<and>
     variable_lookup s =
       (if train_ema_enable (hyperparams self)
        then map (\<lambda>v. (average_name
               (ExponentialMovingAverage (train_ema_decay_rate (hyperparams self))) v,
               EmaCall (ExponentialMovingAverage (train_ema_decay_rate (hyperparams self)))
                 ''average'' [Var v]))
               (trainable_variables w)
        else map (\<lambda>v. (v, Var v)) (trainable_variables w)) \<and>
     ckpt_debug_saver s = Some (Saver (variable_lookup s) []) \<and>
     ckpt_epoch_saver s =
       Some (Saver (variable_lookup s)
         [(''max_to_keep'', PInt (train_num_epoch (hyperparams self)))])"
proof -
  let ?e = "ExponentialMovingAverage (train_ema_decay_rate (hyperparams self))"
  let ?s1 = "init_infer (init_lookup self w) sl p pm t"
  have i: "?s1 = init_lookup self w"
    using assms by (simp add: init_infer_def init_lookup_eq)
  have m: "mode ?s1 = ''train''" using assms by (simp add: i init_lookup_eq)
  have e: "ema ?s1 = Some ?e \<or> \<not> train_ema_enable (hyperparams ?s1)"
    by (simp add: i init_lookup_eq)
  from init_train_train[OF m e, of w l sl p t] obtain s2 where
    s2: "init_train ?s1 w l sl p t =
           (Inr s2, w\<lparr>printed := printed w @ train_messages (hyperparams ?s1)\<rparr>)"
      "train_loss s2 = Some (train_loss_node ?s1 w l sl p t)"
      "update_model s2 = Some (SelfCall ''_minimize_loss'' [train_loss_node ?s1 w l sl p t] 0)"
      "update_op s2 =
       Some (if train_ema_enable (hyperparams ?s1)
             then Ctl [SelfCall ''_minimize_loss'' [train_loss_node ?s1 w l sl p t] 0]
                    (EmaCall ?e ''apply'' [NList (map Var (variable_list ?s1))])
             else SelfCall ''_minimize_loss'' [train_loss_node ?s1 w l sl p t] 0)"
      "variable_lookup s2 =
       (if train_ema_enable (hyperparams ?s1)
        then map (\<lambda>v. (average_name ?e v, EmaCall ?e ''average'' [Var v])) (variable_list ?s1)
        else variable_lookup ?s1)"
      "hyperparams s2 = hyperparams ?s1"
    by blast
  have tl: "train_loss_node ?s1 w l sl p t = train_loss_node self w l sl p t"
    by (rule train_loss_node_cong) (simp_all add: init_infer_fields init_lookup_eq)
  have h1: "hyperparams ?s1 = hyperparams self" "variable_list ?s1 = trainable_variables w"
    by (simp_all add: init_infer_fields init_lookup_eq)
  have h2: "variable_lookup ?s1 =
      (if train_ema_enable (hyperparams self)
       then map (\<lambda>v. (average_name ?e v, Var v)) (trainable_variables w)
       else map (\<lambda>v. (v, Var v)) (trainable_variables w))"
    by (simp add: init_infer_fields init_lookup_eq)
  note f = s2(2-6)[unfolded tl h1]
  let ?w2 = "w\<lparr>printed := printed w @ train_messages (hyperparams self)\<rparr>"
  have b: "init_body self w l sl p pm t = (Inr (fst (init_saver s2 ?w2)), snd (init_saver s2 ?w2))"
    using s2(1)[unfolded h1] by (simp add: init_body_def Let_def split: prod.splits)
  have v: "variable_lookup s2 =
      (if train_ema_enable (hyperparams self)
       then map (\<lambda>v. (average_name ?e v, EmaCall ?e ''average'' [Var v]))
              (trainable_variables w)
       else map (\<lambda>v. (v, Var v)) (trainable_variables w))"
    using f(4) h2 by simp
  show ?thesis
    apply (rule exI[of _ "fst (init_saver s2 ?w2)"], rule exI[of _ "snd (init_saver s2 ?w2)"])
    unfolding init_saver_keeps init_saver_eq f(5)
    using b f(1-3) v by simp
qed

lemma init_infer_keeps:
  "train_loss (init_infer self sl p pm t) = train_loss self"
  "optimizer (init_infer self sl p pm t) = optimizer self"
  "update_op (init_infer self sl p pm t) = update_op self"
  by (simp_all add: init_infer_def)

lemma init_lookup_keeps:
  "train_loss (init_lookup self w) = train_loss self"
  "optimizer (init_lookup self w) = optimizer self"
  "update_op (init_lookup self w) = update_op self"
  by (simp_all add: init_lookup_def Let_def)

lemma init_saver_keeps_train:
  "train_loss (fst (init_saver self w)) = train_loss self"
  "optimizer (fst (init_saver self w)) = optimizer self"
  "update_op (fst (init_saver self w)) = update_op self"
  by (simp_all add: init_saver_def Let_def)

lemma init_body_infer:
  assumes "mode self = ''infer''"
  shows "\<exists>s w'. init_body self w l sl p pm t = (Inr s, w') \<and>
     infer_predict s = Some (TfCall ''tf.contrib.crf.crf_decode'' [p, t, sl] [] 0) \<and>
     infer_predict_mask s = Some pm \<and>
     train_loss s = train_loss self \<and> optimizer s = optimizer self \<and>
     update_op s = update_op self \<and>
     variable_lookup s =
       (if train_ema_enable (hyperparams self)
        then map (\<lambda>v. (average_name
               (ExponentialMovingAverage (train_ema_decay_rate (hyperparams self))) v,
               Var v)) (trainable_variables w)
        else map (\<lambda>v. (v, Var v)) (trainable_variables w)) \<and>
     ckpt_debug_saver s = Some (Saver (variable_lookup s) []) \<and>
     ckpt_epoch_saver s =
       Some (Saver (variable_lookup s)
         [(''max_to_keep'', PInt (train_num_epoch (hyperparams self)))])"
proof -
  let ?s1 = "init_infer (init_lookup self w) sl p pm t"
  have m: "mode (init_lookup self w) = ''infer''" using assms by (simp add: init_lookup_eq)
  have n: "mode ?s1 \<noteq> ''train''" using assms by (simp add: init_infer_fields init_lookup_eq)
  have b: "init_body self w l sl p pm t = (Inr (fst (init_saver ?s1 w)), snd (init_saver ?s1 w))"
    by (simp add: init_body_def Let_def init_train_other[OF n] split: prod.splits)
  show ?thesis
    apply (rule exI[of _ "fst (init_saver ?s1 w)"], rule exI[of _ "snd (init_saver ?s1 w)"])
    unfolding init_saver_keeps init_saver_eq init_saver_keeps_train
    using b init_infer_eq[OF m, of sl p pm t]
    by (simp add: init_infer_fields init_lookup_eq init_infer_keeps init_lookup_keeps)
qed

lemma save_debug:
  "ckpt_debug_saver self = Some sv \<Longrightarrow> ckpt_debug_name self = Some name \<Longrightarrow>
   save self sess step ''debug'' w = (Inr (), w\<lparr>saved := saved w @ [(sv, sess, name, step)]\<rparr>)"
  by (simp add: save_def)

lemma save_epoch:
  "ckpt_epoch_saver self = Some sv \<Longrightarrow> ckpt_epoch_name self = Some name \<Longrightarrow>
   save self sess step ''epoch'' w = (Inr (), w\<lparr>saved := saved w @ [(sv, sess, name, step)]\<rparr>)"
  by (simp add: save_def)

lemma save_other:
  "save_mode \<noteq> ''debug'' \<Longrightarrow> save_mode \<noteq> ''epoch'' \<Longrightarrow>
   save self sess step save_mode w =
     (Inl (ValueError (''unsupported save mode '' @ save_mode)), w)"
  by (simp add: save_def)

lemma line47_mode:
  "mode ((BaseModel_init hp dp md scp reg ngpus gid)\<lparr>global_step := g,
     word_embedding_placeholder := ph\<rparr>) = md"
  "hyperparams ((BaseModel_init hp dp md scp reg ngpus gid)\<lparr>global_step := g,
     word_embedding_placeholder := ph\<rparr>) = hp"
  "regularizer ((BaseModel_init hp dp md scp reg ngpus gid)\<lparr>global_step := g,
     word_embedding_placeholder := ph\<rparr>) = reg"
  "train_loss ((BaseModel_init hp dp md scp reg ngpus gid)\<lparr>global_step := g,
     word_embedding_placeholder := ph\<rparr>) = None"
  "optimizer ((BaseModel_init hp dp md scp reg ngpus gid)\<lparr>global_step := g,
     word_embedding_placeholder := ph\<rparr>) = None"
  "update_op ((BaseModel_init hp dp md scp reg ngpus gid)\<lparr>global_step := g,
     word_embedding_placeholder := ph\<rparr>) = None"
  by (simp_all add: BaseModel_init_def)

section \<open>What the failure leaves undone\<close>

text \<open>
  In each statement below \<open>p\<close>, \<open>pm\<close> and \<open>t\<close> stand for the three values the
  unpacking expects, and the receiver is the object as \<^verbatim>\<open>__init__\<close> holds it at that
  point, whatever its \<^verbatim>\<open>global_step\<close> and \<^verbatim>\<open>word_embedding_placeholder\<close>.

  C3. In mode \<^verbatim>\<open>train\<close> the constructor raises ValueError at the unpacking, having
  printed only the lines of the graph construction: \<^verbatim>\<open>train_loss\<close> is never assigned.
  The code after the unpacking would assign it the mean of the negated CRF
  log-likelihood of (predict, label, sequence length, transition matrix), plus the
  regularization loss exactly when \<^verbatim>\<open>train_regularization_enable\<close> is true.
\<close>

theorem train_loss_is_never_assigned:
  "fst (SequenceCRF_init hp dp ''train'' scp reg ngpus gid w) =
     Inl (ValueError ''not enough values to unpack (expected 3, got 2)'') \<and>
   printed (snd (SequenceCRF_init hp dp ''train'' scp reg ngpus gid w)) =
     printed w @ [''# build graph''] @ build_messages hp \<and>
   ''# setup loss computation mechanism'' \<notin> set ([''# build graph''] @ build_messages hp) \<and>
   (\<exists>s w'. init_body ((BaseModel_init hp dp ''train'' scp reg ngpus gid)\<lparr>global_step := g,
               word_embedding_placeholder := ph\<rparr>) w l sl p pm t = (Inr s, w') \<and>
      train_loss s =
        Some (if train_regularization_enable hp
              then Add (compute_loss l p sl t)
                     (TfCall ''tf.contrib.layers.apply_regularization''
                        [Lit reg, NList (regularization_losses w)] [] 0)
              else compute_loss l p sl t)) \<and>
   compute_loss l p sl t =
     TfCall ''tf.reduce_mean''
       [Mul (Lit (PFloat (- 1)))
          (TfCall ''tf.contrib.crf.crf_log_likelihood'' [p, l, sl, t] [] 0)] [] 0"
proof -
  let ?self = "(BaseModel_init hp dp ''train'' scp reg ngpus gid)\<lparr>global_step := g,
               word_embedding_placeholder := ph\<rparr>"
  have m: "mode ?self = ''train''" by (rule line47_mode)
  from init_body_train[OF m, of w l sl p pm t] obtain s w' where
    "init_body ?self w l sl p pm t = (Inr s, w')"
    "train_loss s = Some (train_loss_node ?self w l sl p t)"
    by blast
  then have "\<exists>s w'. init_body ?self w l sl p pm t = (Inr s, w') \<and>
      train_loss s =
        Some (if train_regularization_enable hp
              then Add (compute_loss l p sl t)
                     (TfCall ''tf.contrib.layers.apply_regularization''
                        [Lit reg, NList (regularization_losses w)] [] 0)
              else compute_loss l p sl t)"
    unfolding train_loss_node_def line47_mode by auto
  then show ?thesis
    by (simp add: SequenceCRF_init_eq build_messages_def compute_loss_eq del: ex_simps)
qed

text \<open>
  C4. In mode \<^verbatim>\<open>infer\<close> the constructor raises ValueError at the unpacking:
  \<^verbatim>\<open>infer_predict\<close> is never assigned. The code after the unpacking would assign it
  the first result of \<^verbatim>\<open>crf_decode\<close> on (predict, transition matrix, sequence length)
  and \<^verbatim>\<open>infer_predict_mask\<close> the mask of the prediction graph, and would leave
  \<^verbatim>\<open>train_loss\<close>, \<^verbatim>\<open>optimizer\<close> and \<^verbatim>\<open>update_op\<close> unassigned.
\<close>

theorem infer_predict_is_never_assigned:
  "fst (SequenceCRF_init hp dp ''infer'' scp reg ngpus gid w) =
     Inl (ValueError ''not enough values to unpack (expected 3, got 2)'') \<and>
   (\<exists>s w'. init_body ((BaseModel_init hp dp ''infer'' scp reg ngpus gid)\<lparr>global_step := g,
               word_embedding_placeholder := ph\<rparr>) w l sl p pm t = (Inr s, w') \<and>
      infer_predict s = Some (TfCall ''tf.contrib.crf.crf_decode'' [p, t, sl] [] 0) \<and>
      infer_predict_mask s = Some pm \<and>
      train_loss s = None \<and> optimizer s = None \<and> update_op s = None)"
proof -
  let ?self = "(BaseModel_init hp dp ''infer'' scp reg ngpus gid)\<lparr>global_step := g,
               word_embedding_placeholder := ph\<rparr>"
  have m: "mode ?self = ''infer''" by (rule line47_mode)
  from init_body_infer[OF m, of w l sl p pm t] obtain s w' where
    "init_body ?self w l sl p pm t = (Inr s, w')"
    "infer_predict s = Some (TfCall ''tf.contrib.crf.crf_decode'' [p, t, sl] [] 0)"
    "infer_predict_mask s = Some pm"
    "train_loss s = train_loss ?self" "optimizer s = optimizer ?self"
    "update_op s = update_op ?self"
    by blast
  then have "\<exists>s w'. init_body ?self w l sl p pm t = (Inr s, w') \<and>
      infer_predict s = Some (TfCall ''tf.contrib.crf.crf_decode'' [p, t, sl] [] 0) \<and>
      infer_predict_mask s = Some pm \<and>
      train_loss s = None \<and> optimizer s = None \<and> update_op s = None"
    unfolding line47_mode by auto
  then show ?thesis
    by (simp add: SequenceCRF_init_eq del: ex_simps)
qed

text \<open>
  C5. With \<^verbatim>\<open>train_ema_enable\<close> true and mode \<^verbatim>\<open>train\<close> the constructor raises
  ValueError at the unpacking: \<^verbatim>\<open>update_op\<close> is never built. The code after the
  unpacking would build it as \<^verbatim>\<open>ema.apply\<close> over the trainable variables under a
  control dependency on \<^verbatim>\<open>update_model\<close>.
\<close>

theorem ema_update_is_never_built:
  "fst (SequenceCRF_init (hp\<lparr>train_ema_enable := True\<rparr>) dp ''train'' scp reg ngpus gid w) =
     Inl (ValueError ''not enough values to unpack (expected 3, got 2)'') \<and>
   (\<exists>s w' u. init_body ((BaseModel_init (hp\<lparr>train_ema_enable := True\<rparr>) dp ''train'' scp
               reg ngpus gid)\<lparr>global_step := g, word_embedding_placeholder := ph\<rparr>)
               w l sl p pm t = (Inr s, w') \<and>
      update_model s = Some u \<and>
      update_op s =
        Some (Ctl [u] (EmaCall (ExponentialMovingAverage (train_ema_decay_rate hp)) ''apply''
                         [NList (map Var (trainable_variables w))])))"
proof -
  let ?hp = "hp\<lparr>train_ema_enable := True\<rparr>"
  let ?self = "(BaseModel_init ?hp dp ''train'' scp reg ngpus gid)\<lparr>global_step := g,
               word_embedding_placeholder := ph\<rparr>"
  have m: "mode ?self = ''train''" by (rule line47_mode)
  have h: "hyperparams ?self = ?hp" by (rule line47_mode)
  from init_body_train[OF m, of w l sl p pm t] obtain s w' where
    b: "init_body ?self w l sl p pm t = (Inr s, w')"
    and u: "update_model s = Some (SelfCall ''_minimize_loss'' [train_loss_node ?self w l sl p t] 0)"
    and o: "update_op s =
       Some (if train_ema_enable (hyperparams ?self)
             then Ctl [SelfCall ''_minimize_loss'' [train_loss_node ?self w l sl p t] 0]
                    (EmaCall (ExponentialMovingAverage (train_ema_decay_rate (hyperparams ?self)))
                       ''apply'' [NList (map Var (trainable_variables w))])
             else SelfCall ''_minimize_loss'' [train_loss_node ?self w l sl p t] 0)"
    by blast
  have "update_op s =
        Some (Ctl [SelfCall ''_minimize_loss'' [train_loss_node ?self w l sl p t] 0]
                (EmaCall (ExponentialMovingAverage (train_ema_decay_rate hp)) ''apply''
                   [NList (map Var (trainable_variables w))]))"
    using o unfolding h by simp
  with b u have "\<exists>s w' u. init_body ?self w l sl p pm t = (Inr s, w') \<and>
      update_model s = Some u \<and>
      update_op s =
        Some (Ctl [u] (EmaCall (ExponentialMovingAverage (train_ema_decay_rate hp)) ''apply''
                         [NList (map Var (trainable_variables w))]))"
    by blast
  then show ?thesis
    by (simp add: SequenceCRF_init_eq del: ex_simps)
qed

text \<open>
  C6. With \<^verbatim>\<open>train_ema_enable\<close> true the constructor raises ValueError at the unpacking
  in every mode, before any directory or saver is created. The code after the unpacking
  would build both savers over a lookup keyed by the average names: in mode \<^verbatim>\<open>train\<close>
  each name mapped to the shadow value \<^verbatim>\<open>ema.average(v)\<close>, in mode \<^verbatim>\<open>infer\<close> to the
  variable itself.
\<close>

theorem savers_are_never_built:
  "fst (SequenceCRF_init (hp\<lparr>train_ema_enable := True\<rparr>) dp md scp reg ngpus gid w) =
     Inl (ValueError ''not enough values to unpack (expected 3, got 2)'') \<and>
   dirs (snd (SequenceCRF_init (hp\<lparr>train_ema_enable := True\<rparr>) dp md scp reg ngpus gid w)) =
     dirs w \<and>
   (\<exists>s w'. init_body ((BaseModel_init (hp\<lparr>train_ema_enable := True\<rparr>) dp ''train'' scp
               reg ngpus gid)\<lparr>global_step := g, word_embedding_placeholder := ph\<rparr>)
               w l sl p pm t = (Inr s, w') \<and>
      variable_lookup s =
        map (\<lambda>v. (average_name (ExponentialMovingAverage (train_ema_decay_rate hp)) v,
                   EmaCall (ExponentialMovingAverage (train_ema_decay_rate hp)) ''average''
                     [Var v])) (trainable_variables w) \<and>
      ckpt_debug_saver s = Some (Saver (variable_lookup s) []) \<and>
      ckpt_epoch_saver s =
        Some (Saver (variable_lookup s) [(''max_to_keep'', PInt (train_num_epoch hp))])) \<and>
   (\<exists>s w'. init_body ((BaseModel_init (hp\<lparr>train_ema_enable := True\<rparr>) dp ''infer'' scp
               reg ngpus gid)\<lparr>global_step := g, word_embedding_placeholder := ph\<rparr>)
               w l sl p pm t = (Inr s, w') \<and>
      variable_lookup s =
        map (\<lambda>v. (average_name (ExponentialMovingAverage (train_ema_decay_rate hp)) v,
                   Var v)) (trainable_variables w) \<and>
      ckpt_debug_saver s = Some (Saver (variable_lookup s) []) \<and>
      ckpt_epoch_saver s =
        Some (Saver (variable_lookup s) [(''max_to_keep'', PInt (train_num_epoch hp))]))"
proof -
  let ?hp = "hp\<lparr>train_ema_enable := True\<rparr>"
  let ?t = "(BaseModel_init ?hp dp ''train'' scp reg ngpus gid)\<lparr>global_step := g,
               word_embedding_placeholder := ph\<rparr>"
  let ?i = "(BaseModel_init ?hp dp ''infer'' scp reg ngpus gid)\<lparr>global_step := g,
               word_embedding_placeholder := ph\<rparr>"
  have mt: "mode ?t = ''train''" and mi: "mode ?i = ''infer''" by (rule line47_mode)+
  have ht: "hyperparams ?t = ?hp" and hi: "hyperparams ?i = ?hp" by (rule line47_mode)+
  from init_body_train[OF mt, of w l sl p pm t, unfolded ht]
  have a: "\<exists>s w'. init_body ?t w l sl p pm t = (Inr s, w') \<and>
      variable_lookup s =
        map (\<lambda>v. (average_name (ExponentialMovingAverage (train_ema_decay_rate hp)) v,
                   EmaCall (ExponentialMovingAverage (train_ema_decay_rate hp)) ''average''
                     [Var v])) (trainable_variables w) \<and>
      ckpt_debug_saver s = Some (Saver (variable_lookup s) []) \<and>
      ckpt_epoch_saver s =
        Some (Saver (variable_lookup s) [(''max_to_keep'', PInt (train_num_epoch hp))])"
    by auto
  from init_body_infer[OF mi, of w l sl p pm t, unfolded hi]
  have b: "\<exists>s w'. init_body ?i w l sl p pm t = (Inr s, w') \<and>
      variable_lookup s =
        map (\<lambda>v. (average_name (ExponentialMovingAverage (train_ema_decay_rate hp)) v,
                   Var v)) (trainable_variables w) \<and>
      ckpt_debug_saver s = Some (Saver (variable_lookup s) []) \<and>
      ckpt_epoch_saver s =
        Some (Saver (variable_lookup s) [(''max_to_keep'', PInt (train_num_epoch hp))])"
    by auto
  have c: "fst (SequenceCRF_init ?hp dp md scp reg ngpus gid w) =
     Inl (ValueError ''not enough values to unpack (expected 3, got 2)'')"
    "dirs (snd (SequenceCRF_init ?hp dp md scp reg ngpus gid w)) = dirs w"
    by (simp_all add: SequenceCRF_init_eq)
  show ?thesis using a b c by blast
qed

section \<open>Saving a checkpoint\<close>

text \<open>
  C7. For every receiver, session, global step and world: \<^verbatim>\<open>save\<close> with mode
  \<^verbatim>\<open>debug\<close> calls the debug saver with the debug checkpoint name, with mode
  \<^verbatim>\<open>epoch\<close> the epoch saver with the epoch checkpoint name, and with any other mode
  raises ValueError and saves nothing. The block of \<^verbatim>\<open>__init__\<close> that creates the
  savers gives the epoch saver \<^verbatim>\<open>max_to_keep = train_num_epoch\<close> and names the
  checkpoints \<^verbatim>\<open>debug/model_debug_ckpt\<close> and \<^verbatim>\<open>epoch/model_epoch_ckpt\<close> under the
  output directory. No constructor call reaches that block: every one raises ValueError
  at the unpacking.
\<close>

theorem save_dispatch:
  "(ckpt_debug_saver self = Some sv \<and> ckpt_debug_name self = Some name \<longrightarrow>
      save self sess step ''debug'' w =
        (Inr (), w\<lparr>saved := saved w @ [(sv, sess, name, step)]\<rparr>)) \<and>
   (ckpt_epoch_saver self = Some sv' \<and> ckpt_epoch_name self = Some name' \<longrightarrow>
      save self sess step ''epoch'' w =
        (Inr (), w\<lparr>saved := saved w @ [(sv', sess, name', step)]\<rparr>)) \<and>
   (save_mode \<noteq> ''debug'' \<and> save_mode \<noteq> ''epoch'' \<longrightarrow>
      save self sess step save_mode w =
        (Inl (ValueError (''unsupported save mode '' @ save_mode)), w)) \<and>
   ckpt_debug_saver (fst (init_saver s0 w0)) = Some (Saver (variable_lookup s0) []) \<and>
   ckpt_epoch_saver (fst (init_saver s0 w0)) =
     Some (Saver (variable_lookup s0)
       [(''max_to_keep'', PInt (train_num_epoch (hyperparams s0)))]) \<and>
   ckpt_debug_name (fst (init_saver s0 w0)) =
     Some (path_join (path_join (train_ckpt_output_dir (hyperparams s0)) ''debug'')
       ''model_debug_ckpt'') \<and>
   ckpt_epoch_name (fst (init_saver s0 w0)) =
     Some (path_join (path_join (train_ckpt_output_dir (hyperparams s0)) ''epoch'')
       ''model_epoch_ckpt'') \<and>
   fst (SequenceCRF_init hp dp md scp reg ngpus gid w1) =
     Inl (ValueError ''not enough values to unpack (expected 3, got 2)'')"
  by (simp add: save_debug save_epoch save_other init_saver_eq SequenceCRF_init_eq)

text \<open>
  The theorem on the object the saver block makes of the concrete configuration, for
  the modes \<^verbatim>\<open>debug\<close>, \<^verbatim>\<open>epoch\<close> and \<^verbatim>\<open>best\<close>.
\<close>

theorem save_dispatch_witness:
  "ckpt_debug_saver (fst (init_saver (example_model ''train'') example_world)) =
     Some (Saver [] []) \<and>
   ckpt_debug_name (fst (init_saver (example_model ''train'') example_world)) =
     Some ''out/debug/model_debug_ckpt'' \<and>
   save (fst (init_saver (example_model ''train'') example_world)) 7 42 ''debug''
       example_world =
     (Inr (), example_world\<lparr>saved := saved example_world @
        [(Saver [] [], 7, ''out/debug/model_debug_ckpt'', 42)]\<rparr>) \<and>
   ckpt_epoch_saver (fst (init_saver (example_model ''train'') example_world)) =
     Some (Saver [] [(''max_to_keep'', PInt 3)]) \<and>
   ckpt_epoch_name (fst (init_saver (example_model ''train'') example_world)) =
     Some ''out/epoch/model_epoch_ckpt'' \<and>
   save (fst (init_saver (example_model ''train'') example_world)) 7 42 ''epoch''
       example_world =
     (Inr (), example_world\<lparr>saved := saved example_world @
        [(Saver [] [(''max_to_keep'', PInt 3)], 7, ''out/epoch/model_epoch_ckpt'', 42)]\<rparr>) \<and>
   ''best'' \<noteq> ''debug'' \<and> ''best'' \<noteq> ''epoch'' \<and>
   save (fst (init_saver (example_model ''train'') example_world)) 7 42 ''best''
       example_world =
     (Inl (ValueError (''unsupported save mode '' @ ''best'')), example_world)"
proof -
  let ?S = "fst (init_saver (example_model ''train'') example_world)"
  have v: "variable_lookup (example_model ''train'') = []"
    "train_num_epoch (hyperparams (example_model ''train'')) = 3"
    "train_ckpt_output_dir (hyperparams (example_model ''train'')) = ''out''"
    by (simp_all add: example_model_def BaseModel_init_def example_hyperparams_def)
  have a: "ckpt_debug_saver ?S = Some (Saver [] [])"
    "ckpt_epoch_saver ?S = Some (Saver [] [(''max_to_keep'', PInt 3)])"
    "ckpt_debug_name ?S = Some ''out/debug/model_debug_ckpt''"
    "ckpt_epoch_name ?S = Some ''out/epoch/model_epoch_ckpt''"
    unfolding init_saver_eq v by (simp_all add: path_join_def)
  have n: "''best'' \<noteq> ''debug''" "''best'' \<noteq> ''epoch''" by simp_all
  show ?thesis
    using save_dispatch[of ?S "Saver [] []" "''out/debug/model_debug_ckpt''" 7 42
        example_world "Saver [] [(''max_to_keep'', PInt 3)]" "''out/epoch/model_epoch_ckpt''"
        "''best''"] a n
    by simp
qed

end
